theory Spec2Isabelle
  imports Complex_Main "HOL-Library.AList" "HOL-Library.Product_Lexorder"
begin

section \<open>S.A.V.E: emergency resource allocation\<close>

text \<open>
  A shallow embedding of the allocation core of the S.A.V.E backend: the negotiation
  engine (\<^verbatim>\<open>negotiation/negotiation_engine.py\<close>), the constraint checker
  (\<^verbatim>\<open>optimization/constraints.py\<close>), the hospital and ambulance agents
  (\<^verbatim>\<open>agents/hospital_agent.py\<close>, \<^verbatim>\<open>agents/ambulance_agent.py\<close>), the failure
  handler (\<^verbatim>\<open>utils/failure_handler.py\<close>) and the simulator
  (\<^verbatim>\<open>simulation/simulator.py\<close>).

  Python integers are \<open>int\<close>. Python floats are modelled as \<open>real\<close>. Scores, distances
  and ETAs are therefore exact here, and two of them that are equal over the reals may
  differ in the last bit as floats, so that the hospital or unit chosen among near-equal
  candidates can differ from the source's. The results below rest on the integer
  capacity counters and hold whichever candidate is chosen; the evaluated inputs have no
  competing scores. Dictionaries whose iteration order is observable are association lists
  in insertion order; the others are maps. Wall-clock time stamps
  (\<^verbatim>\<open>datetime.now()\<close>) and the rendered explanation texts are left out of the
  records.
\<close>

subsection \<open>Shared data\<close>

type_synonym location = "real \<times> real"

text \<open>The default \<^verbatim>\<open>(50, 50)\<close> that every \<^verbatim>\<open>.get("location", (50, 50))\<close> falls back to.\<close>

definition default_location :: location where
  "default_location = (50, 50)"

text \<open>A casualty as \<^verbatim>\<open>DataGenerator\<close> builds it.\<close>

record patient =
  p_id :: string
  p_severity :: string
  p_location :: location
  p_status :: string
  p_assigned_hospital :: "string option"

text \<open>
  A resource request of a hospital (\<^verbatim>\<open>HospitalAgent._generate_requests\<close>), without
  its rendered \<^verbatim>\<open>reason\<close> text.
\<close>

record request =
  rq_resource :: string
  rq_quantity :: int
  rq_urgency :: string

text \<open>
  The hospital message the negotiation engine reads: \<^verbatim>\<open>generate_message\<close> plus the
  \<^verbatim>\<open>location\<close> and \<^verbatim>\<open>name\<close> keys that \<^verbatim>\<open>Simulator.step\<close> adds. Every key the engine
  reads is present in such a message.
\<close>

record hospital_message =
  hm_agent_id :: string
  hm_name :: string
  hm_location :: location
  hm_available_beds :: int
  hm_icu_available :: int
  hm_priority_score :: real
  hm_requests :: "request list"

subsection \<open>Negotiation engine: patients to hospitals\<close>

text \<open>\<^verbatim>\<open>severity_order.get(p.get("severity", "medium"), 2)\<close>\<close>

definition severity_order :: "string \<Rightarrow> nat" where
  "severity_order s =
     (if s = ''critical'' then 0 else if s = ''high'' then 1
      else if s = ''medium'' then 2 else if s = ''low'' then 3 else 2)"

text \<open>One value of the local \<^verbatim>\<open>hospital_capacity\<close> dictionary.\<close>

record capacity_entry =
  ce_beds :: int
  ce_icu :: int
  ce_location :: location
  ce_priority_score :: real
  ce_name :: string

type_synonym capacity_map = "(string \<times> capacity_entry) list"

definition capacity_of_message :: "hospital_message \<Rightarrow> capacity_entry" where
  "capacity_of_message h =
     \<lparr>ce_beds = hm_available_beds h, ce_icu = hm_icu_available h,
      ce_location = hm_location h, ce_priority_score = hm_priority_score h,
      ce_name = hm_name h\<rparr>"

text \<open>
  \<^verbatim>\<open>for h in hospitals: hospital_capacity[h_id] = {...}\<close>: a later message with the
  same id overwrites the value and keeps the key's position.
\<close>

definition build_hospital_capacity :: "hospital_message list \<Rightarrow> capacity_map" where
  "build_hospital_capacity hospitals =
     foldl (\<lambda>m h. AList.update (hm_agent_id h) (capacity_of_message h) m) [] hospitals"

definition calculate_distance :: "location \<Rightarrow> location \<Rightarrow> real" where
  "calculate_distance loc1 loc2 =
     sqrt ((fst loc2 - fst loc1)\<^sup>2 + (snd loc2 - snd loc1)\<^sup>2)"

record candidate =
  cd_id :: string
  cd_name :: string
  cd_score :: real
  cd_distance :: real
  cd_capacity :: int

text \<open>The capacity check at the head of the loop body of \<^verbatim>\<open>_find_best_hospital\<close>.\<close>

definition has_capacity :: "string \<Rightarrow> capacity_entry \<Rightarrow> bool" where
  "has_capacity patient_severity h_data =
     (if patient_severity = ''critical'' then \<not> ce_icu h_data \<le> 0
      else \<not> ce_beds h_data \<le> 0)"

text \<open>\<^verbatim>\<open>priorities.get("multipliers", {}).get(h_id, 1.0)\<close>\<close>

definition priority_mult :: "(string \<rightharpoonup> real) \<Rightarrow> string \<Rightarrow> real" where
  "priority_mult multipliers h_id =
     (case multipliers h_id of None \<Rightarrow> 1 | Some m \<Rightarrow> m)"

definition score_candidate ::
  "patient \<Rightarrow> (string \<rightharpoonup> real) \<Rightarrow> string \<times> capacity_entry \<Rightarrow> candidate" where
  "score_candidate p multipliers kv =
     (let h_id = fst kv; h_data = snd kv;
          distance = calculate_distance (p_location p) (ce_location h_data);
          distance_score = max 0 (1 - distance / 100);
          capacity_score = min 1 (real_of_int (ce_beds h_data + ce_icu h_data * 2) / 50);
          total_score =
            (distance_score * 0.4 + capacity_score * 0.4
             + (1 - ce_priority_score h_data) * 0.2) * priority_mult multipliers h_id
      in \<lparr>cd_id = h_id, cd_name = ce_name h_data, cd_score = total_score,
          cd_distance = distance, cd_capacity = ce_beds h_data\<rparr>)"

text \<open>
  Python's \<^verbatim>\<open>max(candidates, key=...)\<close> keeps the first of the maximal elements: the
  running best is replaced only by a strictly larger key.
\<close>

fun max_by :: "('a \<Rightarrow> 'k::linorder) \<Rightarrow> 'a \<Rightarrow> 'a list \<Rightarrow> 'a" where
  "max_by key best [] = best"
| "max_by key best (x # xs) = max_by key (if key best < key x then x else best) xs"

definition find_best_hospital ::
  "patient \<Rightarrow> capacity_map \<Rightarrow> (string \<rightharpoonup> real) \<Rightarrow> candidate option" where
  "find_best_hospital p hospital_capacity multipliers =
     (case map (score_candidate p multipliers)
             (filter (\<lambda>kv. has_capacity (p_severity p) (snd kv)) hospital_capacity) of
        [] \<Rightarrow> None
      | c # cs \<Rightarrow> Some (max_by cd_score c cs))"

record assignment =
  pa_patient_id :: string
  pa_patient_severity :: string
  pa_patient_location :: location
  pa_assigned_hospital :: string
  pa_hospital_name :: string
  pa_score :: real

definition make_assignment :: "patient \<Rightarrow> candidate \<Rightarrow> assignment" where
  "make_assignment p best =
     \<lparr>pa_patient_id = p_id p, pa_patient_severity = p_severity p,
      pa_patient_location = p_location p, pa_assigned_hospital = cd_id best,
      pa_hospital_name = cd_name best, pa_score = cd_score best\<rparr>"

text \<open>The "update capacity tracking" step: which tentative counter an assignment consumes.\<close>

definition consume_capacity :: "string \<Rightarrow> string \<Rightarrow> capacity_map \<Rightarrow> capacity_map" where
  "consume_capacity patient_severity h_id hospital_capacity =
     (if patient_severity = ''critical''
      then AList.map_entry h_id (\<lambda>e. e\<lparr>ce_icu := ce_icu e - 1\<rparr>) hospital_capacity
      else AList.map_entry h_id (\<lambda>e. e\<lparr>ce_beds := ce_beds e - 1\<rparr>) hospital_capacity)"

text \<open>
  The loop over the sorted patients. It returns the assignments in the order they are
  appended, and the tentative capacity map as the loop leaves it.
\<close>

fun assign_loop ::
  "(string \<rightharpoonup> real) \<Rightarrow> patient list \<Rightarrow> capacity_map \<Rightarrow> assignment list \<times> capacity_map" where
  "assign_loop multipliers [] hospital_capacity = ([], hospital_capacity)"
| "assign_loop multipliers (p # ps) hospital_capacity =
     (case find_best_hospital p hospital_capacity multipliers of
        None \<Rightarrow> assign_loop multipliers ps hospital_capacity
      | Some best \<Rightarrow>
          (let rest = assign_loop multipliers ps
                        (consume_capacity (p_severity p) (cd_id best) hospital_capacity)
           in (make_assignment p best # fst rest, snd rest)))"

definition sorted_patients :: "patient list \<Rightarrow> patient list" where
  "sorted_patients patients = sort_key (\<lambda>p. severity_order (p_severity p)) patients"

definition assign_patients_to_hospitals ::
  "patient list \<Rightarrow> hospital_message list \<Rightarrow> (string \<rightharpoonup> real) \<Rightarrow> assignment list" where
  "assign_patients_to_hospitals patients hospitals multipliers =
     fst (assign_loop multipliers (take 10 (sorted_patients patients))
            (build_hospital_capacity hospitals))"

text \<open>\<^verbatim>\<open>d.get(k, default)\<close> on a dictionary modelled as a map.\<close>

definition dict_get :: "('k \<rightharpoonup> 'v) \<Rightarrow> 'k \<Rightarrow> 'v \<Rightarrow> 'v" where
  "dict_get d k dflt = (case d k of None \<Rightarrow> dflt | Some v \<Rightarrow> v)"

subsection \<open>Negotiation engine: supplies\<close>

text \<open>An element of \<^verbatim>\<open>all_requests\<close>: the request with the requesting hospital's fields.\<close>

record hospital_request =
  hr_resource :: string
  hr_quantity :: int
  hr_urgency :: string
  hr_hospital_id :: string
  hr_hospital_name :: string
  hr_hospital_priority :: real

definition collect_requests :: "hospital_message list \<Rightarrow> hospital_request list" where
  "collect_requests hospitals =
     concat (map (\<lambda>h. map (\<lambda>req.
         \<lparr>hr_resource = rq_resource req, hr_quantity = rq_quantity req,
          hr_urgency = rq_urgency req, hr_hospital_id = hm_agent_id h,
          hr_hospital_name = hm_name h, hr_hospital_priority = hm_priority_score h\<rparr>)
       (hm_requests h)) hospitals)"

definition urgency_order :: "string \<Rightarrow> nat" where
  "urgency_order u =
     (if u = ''critical'' then 0 else if u = ''high'' then 1
      else if u = ''medium'' then 2 else if u = ''low'' then 3 else 2)"

text \<open>
  \<^verbatim>\<open>all_requests.sort(key=lambda r: (urgency_order..., -hospital_priority))\<close>: a stable
  sort on the pair, compared lexicographically.
\<close>

definition sort_requests :: "hospital_request list \<Rightarrow> hospital_request list" where
  "sort_requests reqs =
     sort_key (\<lambda>r. (urgency_order (hr_urgency r), - hr_hospital_priority r)) reqs"

text \<open>
  The supply agent's message: \<^verbatim>\<open>current_capacity\<close> holds a copy of the depot inventory
  (\<^verbatim>\<open>self.inventory.copy()\<close>) and the number of free vehicles.
\<close>

record supply_message =
  sm_inventory :: "string \<rightharpoonup> int"
  sm_vehicles_available :: int

record supply_allocation =
  sa_hospital_id :: string
  sa_hospital_name :: string
  sa_resource :: string
  sa_quantity :: int
  sa_urgency :: string

text \<open>
  The loop over the first five requests. \<open>available\<close> is the inventory dictionary of the
  message, updated in place by the source; the loop returns it with the allocations.
\<close>

fun allocate_loop ::
  "hospital_request list \<Rightarrow> (string \<rightharpoonup> int) \<Rightarrow> supply_allocation list \<times> (string \<rightharpoonup> int)" where
  "allocate_loop [] available = ([], available)"
| "allocate_loop (req # reqs) available =
     (let resource = hr_resource req in
      if resource = ''ambulance_diversion'' then allocate_loop reqs available
      else
        (let quantity = hr_quantity req;
             available_qty = dict_get available resource 0
         in if available_qty > 0
            then (let allocated = min quantity available_qty;
                      rest = allocate_loop reqs (available(resource \<mapsto> available_qty - allocated))
                  in (\<lparr>sa_hospital_id = hr_hospital_id req,
                       sa_hospital_name = hr_hospital_name req,
                       sa_resource = resource, sa_quantity = allocated,
                       sa_urgency = hr_urgency req\<rparr> # fst rest, snd rest))
            else allocate_loop reqs available))"

definition allocate_supplies ::
  "hospital_message list \<Rightarrow> supply_message \<Rightarrow> supply_allocation list \<times> (string \<rightharpoonup> int)" where
  "allocate_supplies hospitals supply =
     allocate_loop (take 5 (sort_requests (collect_requests hospitals))) (sm_inventory supply)"

subsection \<open>Negotiation engine: ambulances\<close>

text \<open>
  The ambulance message. \<^verbatim>\<open>AmbulanceAgent.generate_message\<close> writes no \<^verbatim>\<open>location\<close>
  key, so the field is optional and the engine's default applies when it is absent.
\<close>

record ambulance_message =
  am_agent_id :: string
  am_location :: "location option"
  am_available_slots :: int
  am_fuel_level :: real

definition calculate_eta :: "location \<Rightarrow> location \<Rightarrow> location \<Rightarrow> real" where
  "calculate_eta amb_loc patient_loc hospital_loc =
     (let speed = 40;
          d1 = calculate_distance amb_loc patient_loc;
          d2 = calculate_distance patient_loc hospital_loc;
          total_distance = d1 + d2;
          hours = total_distance / speed
      in hours * 60)"

text \<open>
  Python's \<^verbatim>\<open>round(x, 1)\<close>: to the nearest tenth, a tie going to the even neighbour.
  It rounds the real value; the source rounds the float it has computed, which may lie
  on the other side of a rounding boundary. No result below depends on a rounded value.
\<close>

definition py_round1 :: "real \<Rightarrow> real" where
  "py_round1 x =
     (let y = x * 10; f = \<lfloor>y\<rfloor>; r = y - real_of_int f
      in real_of_int (if r < 1 / 2 then f else if 1 / 2 < r then f + 1
                      else if even f then f else f + 1) / 10)"

text \<open>
  The inner loop: \<open>None\<close> is the start \<^verbatim>\<open>best_amb = None, best_eta = inf\<close>; a later unit
  replaces the best one only with a strictly smaller ETA.
\<close>

fun nearest_ambulance ::
  "location \<Rightarrow> location \<Rightarrow> (ambulance_message \<times> real) option \<Rightarrow> ambulance_message list
   \<Rightarrow> (ambulance_message \<times> real) option" where
  "nearest_ambulance patient_loc hospital_loc best [] = best"
| "nearest_ambulance patient_loc hospital_loc best (amb # ambs) =
     (let amb_loc = (case am_location amb of None \<Rightarrow> default_location | Some l \<Rightarrow> l);
          eta = calculate_eta amb_loc patient_loc hospital_loc
      in nearest_ambulance patient_loc hospital_loc
           (case best of
              None \<Rightarrow> Some (amb, eta)
            | Some (best_amb, best_eta) \<Rightarrow>
                if eta < best_eta then Some (amb, eta) else Some (best_amb, best_eta))
           ambs)"

text \<open>The projected ETA of a unit for one patient-hospital pair, as the inner loop computes it.\<close>

definition unit_eta :: "location \<Rightarrow> location \<Rightarrow> ambulance_message \<Rightarrow> real" where
  "unit_eta patient_loc hospital_loc amb =
     calculate_eta (case am_location amb of None \<Rightarrow> default_location | Some l \<Rightarrow> l)
       patient_loc hospital_loc"

record ambulance_assignment =
  aa_ambulance_id :: string
  aa_patient_id :: string
  aa_hospital_id :: string
  aa_pickup_location :: location
  aa_hospital_location :: location
  aa_eta_minutes :: real

definition available_ambulances :: "ambulance_message list \<Rightarrow> ambulance_message list" where
  "available_ambulances ambulances = filter (\<lambda>a. am_available_slots a > 0) ambulances"

definition hospital_locations :: "hospital_message list \<Rightarrow> (string \<rightharpoonup> location)" where
  "hospital_locations hospitals =
     foldl (\<lambda>m h. m(hm_agent_id h \<mapsto> hm_location h)) Map.empty hospitals"

fun ambulance_loop ::
  "(string \<rightharpoonup> location) \<Rightarrow> assignment list \<Rightarrow> ambulance_message list
   \<Rightarrow> ambulance_assignment list" where
  "ambulance_loop locs [] pool = []"
| "ambulance_loop locs (a # as) pool =
     (if pool = [] then []
      else
        (let patient_loc = pa_patient_location a;
             hospital_id = pa_assigned_hospital a;
             hospital_loc = dict_get locs hospital_id default_location
         in case nearest_ambulance patient_loc hospital_loc None pool of
              None \<Rightarrow> ambulance_loop locs as pool
            | Some (best_amb, best_eta) \<Rightarrow>
                \<lparr>aa_ambulance_id = am_agent_id best_amb, aa_patient_id = pa_patient_id a,
                 aa_hospital_id = hospital_id, aa_pickup_location = patient_loc,
                 aa_hospital_location = hospital_loc,
                 aa_eta_minutes = py_round1 best_eta\<rparr>
                # ambulance_loop locs as (remove1 best_amb pool)))"

definition assign_ambulances ::
  "assignment list \<Rightarrow> ambulance_message list \<Rightarrow> hospital_message list
   \<Rightarrow> ambulance_assignment list" where
  "assign_ambulances patient_assignments ambulances hospitals =
     ambulance_loop (hospital_locations hospitals) patient_assignments
       (available_ambulances ambulances)"

subsection \<open>Negotiation engine: one round\<close>

record round_result =
  rr_round :: int
  rr_patient_assignments :: "assignment list"
  rr_supply_allocations :: "supply_allocation list"
  rr_ambulance_assignments :: "ambulance_assignment list"

record negotiation_engine =
  ne_current_round :: int
  ne_negotiation_rounds :: "round_result list"

definition run_negotiation ::
  "negotiation_engine \<Rightarrow> hospital_message list \<Rightarrow> ambulance_message list \<Rightarrow> supply_message
   \<Rightarrow> (string \<rightharpoonup> real) \<Rightarrow> patient list \<Rightarrow> round_result \<times> negotiation_engine" where
  "run_negotiation eng hospital_messages ambulance_messages supply_msg multipliers
       waiting_patients =
     (let current_round = ne_current_round eng + 1;
          patient_assignments =
            assign_patients_to_hospitals waiting_patients hospital_messages multipliers;
          supply_allocations = fst (allocate_supplies hospital_messages supply_msg);
          ambulance_assignments =
            assign_ambulances patient_assignments ambulance_messages hospital_messages;
          round_result =
            \<lparr>rr_round = current_round, rr_patient_assignments = patient_assignments,
             rr_supply_allocations = supply_allocations,
             rr_ambulance_assignments = ambulance_assignments\<rparr>
      in (round_result,
          eng\<lparr>ne_current_round := current_round,
              ne_negotiation_rounds := ne_negotiation_rounds eng @ [round_result]\<rparr>))"

text \<open>
  How many assignments of a round consume the ICU counter, and how many the general-bed
  counter, of one hospital: the two branches of the capacity update in
  \<^verbatim>\<open>_assign_patients_to_hospitals\<close>.
\<close>

definition icu_load :: "string \<Rightarrow> assignment list \<Rightarrow> nat" where
  "icu_load h_id assignments =
     length (filter (\<lambda>a. pa_assigned_hospital a = h_id
                          \<and> pa_patient_severity a = ''critical'') assignments)"

definition bed_load :: "string \<Rightarrow> assignment list \<Rightarrow> nat" where
  "bed_load h_id assignments =
     length (filter (\<lambda>a. pa_assigned_hospital a = h_id
                          \<and> pa_patient_severity a \<noteq> ''critical'') assignments)"

subsection \<open>Ledger snapshots\<close>

text \<open>
  The dictionaries of \<^verbatim>\<open>get_state\<close> that the constraint checker, the failure handler
  and the government agent read, with the keys they use. A dictionary of snapshots
  keyed by agent id is an association list in insertion order.
\<close>

record hospital_state =
  hs_total_beds :: int
  hs_available_beds :: int
  hs_bed_utilization :: real
  hs_icu_beds :: int
  hs_icu_available :: int
  hs_oxygen_units :: real
  hs_is_overloaded :: bool
  hs_is_critical :: bool
  hs_requires_diversion :: bool

record ambulance_state =
  as_capacity :: int
  as_current_load :: int
  as_fuel :: real
  as_status :: string
  as_available :: bool

record supply_state =
  ss_inventory :: "string \<rightharpoonup> int"
  ss_vehicles_available :: int

subsection \<open>Constraint checker\<close>

text \<open>
  A proposal as \<^verbatim>\<open>filter_valid_allocations\<close> reads and writes it: the keys
  \<^verbatim>\<open>assigned_hospital\<close> and \<^verbatim>\<open>patient_severity\<close> of a patient assignment, and the
  \<^verbatim>\<open>rejection_reason\<close> key the checker sets on a rejected one.
\<close>

record allocation =
  al_patient_id :: string
  al_patient_severity :: string
  al_assigned_hospital :: string
  al_rejection_reason :: "string option"

text \<open>\<^verbatim>\<open>{h_id: h.get("available_beds", 0) for h_id, h in hospitals.items()}\<close>\<close>

definition remaining_beds_of :: "(string \<times> hospital_state) list \<Rightarrow> (string \<rightharpoonup> int)" where
  "remaining_beds_of hospitals =
     foldl (\<lambda>m kv. m(fst kv \<mapsto> hs_available_beds (snd kv))) Map.empty hospitals"

definition remaining_icu_of :: "(string \<times> hospital_state) list \<Rightarrow> (string \<rightharpoonup> int)" where
  "remaining_icu_of hospitals =
     foldl (\<lambda>m kv. m(fst kv \<mapsto> hs_icu_available (snd kv))) Map.empty hospitals"

fun filter_loop ::
  "allocation list \<Rightarrow> (string \<rightharpoonup> int) \<Rightarrow> (string \<rightharpoonup> int)
   \<Rightarrow> allocation list \<times> allocation list" where
  "filter_loop [] remaining_beds remaining_icu = ([], [])"
| "filter_loop (a # as) remaining_beds remaining_icu =
     (let hospital_id = al_assigned_hospital a; severity = al_patient_severity a in
      if severity = ''critical'' then
        (if dict_get remaining_icu hospital_id 0 > 0
         then (let rest = filter_loop as remaining_beds
                            (remaining_icu(hospital_id \<mapsto> dict_get remaining_icu hospital_id 0 - 1))
               in (a # fst rest, snd rest))
         else (let rest = filter_loop as remaining_beds remaining_icu
               in (fst rest, a\<lparr>al_rejection_reason := Some ''No ICU capacity''\<rparr> # snd rest)))
      else
        (if dict_get remaining_beds hospital_id 0 > 0
         then (let rest = filter_loop as
                            (remaining_beds(hospital_id \<mapsto> dict_get remaining_beds hospital_id 0 - 1))
                            remaining_icu
               in (a # fst rest, snd rest))
         else (let rest = filter_loop as remaining_beds remaining_icu
               in (fst rest, a\<lparr>al_rejection_reason := Some ''No bed capacity''\<rparr> # snd rest))))"

text \<open>The result is the pair \<^verbatim>\<open>(valid, rejected)\<close>.\<close>

definition filter_valid_allocations ::
  "allocation list \<Rightarrow> (string \<times> hospital_state) list \<Rightarrow> allocation list \<times> allocation list" where
  "filter_valid_allocations proposed hospitals =
     filter_loop proposed (remaining_beds_of hospitals) (remaining_icu_of hospitals)"

text \<open>The proposals of a list that target one hospital with one capacity class.\<close>

definition icu_proposals :: "string \<Rightarrow> allocation list \<Rightarrow> allocation list" where
  "icu_proposals h_id allocations =
     filter (\<lambda>a. al_assigned_hospital a = h_id \<and> al_patient_severity a = ''critical'') allocations"

definition bed_proposals :: "string \<Rightarrow> allocation list \<Rightarrow> allocation list" where
  "bed_proposals h_id allocations =
     filter (\<lambda>a. al_assigned_hospital a = h_id \<and> al_patient_severity a \<noteq> ''critical'') allocations"

subsection \<open>Hospital agent\<close>

datatype py_error = KeyError string | TypeError | ZeroDivisionError | AttributeError

record patient_record =
  pr_id :: string
  pr_esi_level :: int
  pr_triage_category :: string
  pr_unit :: string

record hospital =
  h_agent_id :: string
  h_name :: string
  h_location :: location
  h_total_beds :: int
  h_available_beds :: int
  h_icu_beds :: int
  h_icu_available :: int
  h_oxygen_units :: real
  h_doctors_on_duty :: int
  h_patient_inflow_rate :: real
  h_nurses_on_duty :: int
  h_patients_admitted :: "patient_record list"
  h_pending_requests :: "request list"
  h_incoming_ambulances :: "string list"

text \<open>
  \<^verbatim>\<open>HospitalAgent.__init__\<close>. It stores its arguments; the base class stores
  \<^verbatim>\<open>name or agent_id\<close>, the id for an empty name, and \<^verbatim>\<open>nurses_on_duty or
  (doctors_on_duty * 3)\<close> takes the estimate when the argument is \<^verbatim>\<open>None\<close> or \<open>0\<close>.
\<close>

definition HospitalAgent_init ::
  "string \<Rightarrow> string \<Rightarrow> location \<Rightarrow> int \<Rightarrow> int \<Rightarrow> int \<Rightarrow> int \<Rightarrow> real \<Rightarrow> int \<Rightarrow> real
   \<Rightarrow> int option \<Rightarrow> hospital" where
  "HospitalAgent_init agent_id name location total_beds available_beds icu_beds icu_available
       oxygen_units doctors_on_duty patient_inflow_rate nurses_on_duty =
     \<lparr>h_agent_id = agent_id, h_name = (if name = [] then agent_id else name),
      h_location = location,
      h_total_beds = total_beds, h_available_beds = available_beds,
      h_icu_beds = icu_beds, h_icu_available = icu_available,
      h_oxygen_units = oxygen_units, h_doctors_on_duty = doctors_on_duty,
      h_patient_inflow_rate = patient_inflow_rate,
      h_nurses_on_duty =
        (case nurses_on_duty of
           None \<Rightarrow> doctors_on_duty * 3
         | Some n \<Rightarrow> if n = 0 then doctors_on_duty * 3 else n),
      h_patients_admitted = [], h_pending_requests = [], h_incoming_ambulances = []\<rparr>"

text \<open>\<^verbatim>\<open>ESI_LEVELS[esi_level]["name"]\<close>: a key outside 1..5 raises \<^verbatim>\<open>KeyError\<close>.\<close>

definition esi_name :: "int \<Rightarrow> string option" where
  "esi_name esi =
     (if esi = 1 then Some ''Resuscitation'' else if esi = 2 then Some ''Emergent''
      else if esi = 3 then Some ''Urgent'' else if esi = 4 then Some ''Less Urgent''
      else if esi = 5 then Some ''Non-Urgent'' else None)"

text \<open>\<^verbatim>\<open>SEVERITY_TO_ESI.get(severity, 3)\<close>\<close>

definition severity_to_esi :: "string \<Rightarrow> int" where
  "severity_to_esi severity =
     (if severity = ''critical'' then 1 else if severity = ''high'' then 2
      else if severity = ''medium'' then 3 else if severity = ''low'' then 4
      else if severity = ''minor'' then 5 else 3)"

text \<open>\<^verbatim>\<open>OXYGEN_CONSUMPTION_LPM.get(esi, 4.0)\<close>\<close>

definition oxygen_consumption_lpm :: "int \<Rightarrow> real" where
  "oxygen_consumption_lpm esi =
     (if esi = 1 then 15 else if esi = 2 then 8 else if esi = 3 then 4
      else if esi = 4 then 2 else if esi = 5 then 0 else 4)"

definition bed_utilization :: "hospital \<Rightarrow> real" where
  "bed_utilization h =
     1 - real_of_int (h_available_beds h) / real_of_int (max (h_total_beds h) 1)"

definition icu_utilization :: "hospital \<Rightarrow> real" where
  "icu_utilization h =
     1 - real_of_int (h_icu_available h) / real_of_int (max (h_icu_beds h) 1)"

definition icu_patients :: "hospital \<Rightarrow> int" where
  "icu_patients h = h_icu_beds h - h_icu_available h"

definition current_oxygen_consumption_lpm :: "hospital \<Rightarrow> real" where
  "current_oxygen_consumption_lpm h =
     sum_list (map (\<lambda>p. oxygen_consumption_lpm (pr_esi_level p)) (h_patients_admitted h))
     + real_of_int (icu_patients h) * oxygen_consumption_lpm 1"

definition oxygen_hours_remaining :: "hospital \<Rightarrow> real" where
  "oxygen_hours_remaining h =
     (let consumption_lpm = current_oxygen_consumption_lpm h
      in if consumption_lpm \<le> 0 then 999 else h_oxygen_units h / (consumption_lpm * 60))"

definition oxygen_status :: "hospital \<Rightarrow> string" where
  "oxygen_status h =
     (let hours = oxygen_hours_remaining h
      in if hours \<le> 4 then ''critical'' else if hours \<le> 8 then ''warning'' else ''adequate'')"

text \<open>
  \<^verbatim>\<open>nurse_patient_ratio\<close> is \<^verbatim>\<open>float('inf')\<close> without ICU patients (here \<open>None\<close>), and
  \<^verbatim>\<open>staffing_adequate\<close> compares it with \<^verbatim>\<open>1 / NURSE_PATIENT_RATIO_ICU\<close>.
\<close>

definition nurse_patient_ratio :: "hospital \<Rightarrow> real option" where
  "nurse_patient_ratio h =
     (if icu_patients h = 0 then None
      else Some (real_of_int (h_nurses_on_duty h) * 0.4 / real_of_int (icu_patients h)))"

definition staffing_adequate :: "hospital \<Rightarrow> bool" where
  "staffing_adequate h =
     (case nurse_patient_ratio h of None \<Rightarrow> True | Some r \<Rightarrow> r \<ge> 1 / 2)"

definition is_overloaded :: "hospital \<Rightarrow> bool" where
  "is_overloaded h = (bed_utilization h \<ge> 0.85)"

definition is_critical :: "hospital \<Rightarrow> bool" where
  "is_critical h =
     (bed_utilization h \<ge> 0.95 \<or> icu_utilization h \<ge> 0.90 \<or> oxygen_status h = ''critical'')"

definition requires_diversion :: "hospital \<Rightarrow> bool" where
  "requires_diversion h =
     (bed_utilization h \<ge> 0.98 \<or> h_icu_available h = 0 \<or> oxygen_hours_remaining h \<le> 2)"

definition can_accept_patient :: "hospital \<Rightarrow> int \<Rightarrow> bool" where
  "can_accept_patient h esi_level =
     (if esi_level \<le> 2
      then h_icu_available h > 0 \<and> oxygen_hours_remaining h > 4 \<and> \<not> requires_diversion h
      else h_available_beds h > 0 \<and> \<not> requires_diversion h)"

text \<open>
  \<^verbatim>\<open>accept_patient\<close> returns \<^verbatim>\<open>False\<close> and leaves the hospital as it is when the check
  fails; the lookup of the triage name raises before any field is written.
\<close>

definition accept_patient :: "hospital \<Rightarrow> string \<Rightarrow> int \<Rightarrow> py_error + bool \<times> hospital" where
  "accept_patient h patient_id esi_level =
     (if \<not> can_accept_patient h esi_level then Inr (False, h)
      else case esi_name esi_level of
        None \<Rightarrow> Inl (KeyError ''esi_level'')
      | Some triage \<Rightarrow>
          (if esi_level \<le> 2
           then Inr (True, h\<lparr>h_icu_available := h_icu_available h - 1,
                     h_patients_admitted := h_patients_admitted h @
                       [\<lparr>pr_id = patient_id, pr_esi_level = esi_level,
                         pr_triage_category = triage, pr_unit = ''ICU''\<rparr>]\<rparr>)
           else Inr (True, h\<lparr>h_available_beds := h_available_beds h - 1,
                     h_patients_admitted := h_patients_admitted h @
                       [\<lparr>pr_id = patient_id, pr_esi_level = esi_level,
                         pr_triage_category = triage, pr_unit = ''General''\<rparr>]\<rparr>)))"

text \<open>
  The \<^verbatim>\<open>patient_assignment\<close> message and its handler: the ESI level is the message's
  own, or the one the severity maps to.
\<close>

record patient_assignment_message =
  pm_patient_id :: string
  pm_severity :: string
  pm_esi_level :: "int option"

definition handle_patient_assignment ::
  "hospital \<Rightarrow> patient_assignment_message \<Rightarrow> py_error + hospital" where
  "handle_patient_assignment h message =
     (let esi_level =
            (case pm_esi_level message of
               None \<Rightarrow> severity_to_esi (pm_severity message)
             | Some e \<Rightarrow> if e = 0 then severity_to_esi (pm_severity message) else e)
      in if can_accept_patient h esi_level
         then (case accept_patient h (pm_patient_id message) esi_level of
                 Inl err \<Rightarrow> Inl err
               | Inr r \<Rightarrow> Inr (snd r))
         else Inr h)"

text \<open>The \<^verbatim>\<open>supply_allocation\<close> message and its handler.\<close>

record supply_delivery_message =
  sd_supply_type :: string
  sd_quantity :: int

definition handle_supply_allocation :: "hospital \<Rightarrow> supply_delivery_message \<Rightarrow> hospital" where
  "handle_supply_allocation h message =
     (if sd_supply_type message = ''oxygen''
      then h\<lparr>h_oxygen_units := h_oxygen_units h + real_of_int (sd_quantity message)\<rparr>
      else h)"

datatype hospital_action = PatientDischarged string int

text \<open>
  \<^verbatim>\<open>HospitalAgent.update\<close>: oxygen consumption of five minutes, and a discharge on
  every fifth tick. The list is sorted in place by \<^verbatim>\<open>-esi_level\<close> (stable) and its last
  element is popped.
\<close>

definition hospital_update :: "hospital \<Rightarrow> int \<Rightarrow> hospital_action list \<times> hospital" where
  "hospital_update h tick =
     (let oxygen_consumed = current_oxygen_consumption_lpm h * 5;
          h1 = h\<lparr>h_oxygen_units := max 0 (h_oxygen_units h - oxygen_consumed)\<rparr>
      in if tick mod 5 = 0 \<and> h_patients_admitted h1 \<noteq> []
         then (let sorted = sort_key (\<lambda>p. - pr_esi_level p) (h_patients_admitted h1);
                   discharged = last sorted;
                   h2 = h1\<lparr>h_patients_admitted := butlast sorted\<rparr>;
                   h3 = (if pr_unit discharged = ''ICU''
                         then h2\<lparr>h_icu_available := min (h_icu_available h2 + 1) (h_icu_beds h2)\<rparr>
                         else h2\<lparr>h_available_beds :=
                                   min (h_available_beds h2 + 1) (h_total_beds h2)\<rparr>)
               in ([PatientDischarged (pr_id discharged) (pr_esi_level discharged)], h3))
         else ([], h1))"

text \<open>The ledger invariant of a hospital.\<close>

definition hospital_invariant :: "hospital \<Rightarrow> bool" where
  "hospital_invariant h =
     (0 \<le> h_available_beds h \<and> h_available_beds h \<le> h_total_beds h
      \<and> 0 \<le> h_icu_available h \<and> h_icu_available h \<le> h_icu_beds h
      \<and> 0 \<le> h_oxygen_units h)"

text \<open>
  \<^verbatim>\<open>calculate_priority_score\<close>; the inflow rate enters through
  \<^verbatim>\<open>min(0.05, patient_inflow_rate * 0.01)\<close>.
\<close>

definition calculate_priority_score :: "hospital \<Rightarrow> real" where
  "calculate_priority_score h =
     (let s1 = bed_utilization h * 0.25;
          s2 = s1 + icu_utilization h * 0.30;
          s3 = (if oxygen_status h = ''critical'' then s2 + 0.30
                else if oxygen_status h = ''warning'' then s2 + 0.15 else s2);
          s4 = (if \<not> staffing_adequate h then s3 + 0.10 else s3);
          s5 = s4 + min 0.05 (h_patient_inflow_rate h * 0.01)
      in min 1 s5)"

definition hospital_get_state :: "hospital \<Rightarrow> hospital_state" where
  "hospital_get_state h =
     \<lparr>hs_total_beds = h_total_beds h, hs_available_beds = h_available_beds h,
      hs_bed_utilization = py_round1 (bed_utilization h * 100),
      hs_icu_beds = h_icu_beds h, hs_icu_available = h_icu_available h,
      hs_oxygen_units = h_oxygen_units h, hs_is_overloaded = is_overloaded h,
      hs_is_critical = is_critical h, hs_requires_diversion = requires_diversion h\<rparr>"

subsection \<open>Failure handler\<close>

datatype failure_type =
  NO_BEDS_ANYWHERE | OXYGEN_EXHAUSTED | NO_AMBULANCES | SUPPLY_DEPLETED
  | COMMUNICATION_FAILURE | SYSTEM_OVERLOAD

text \<open>A detected failure; \<^verbatim>\<open>affected\<close> is a key of two of the four kinds only.\<close>

record failure =
  f_type :: failure_type
  f_severity :: string
  f_affected :: "string list option"

text \<open>An entry of \<^verbatim>\<open>active_failures\<close>: the failure with the protocol that handles it.\<close>

record active_failure =
  af_type :: failure_type
  af_severity :: string
  af_affected :: "string list option"
  af_protocol :: string

record failure_response =
  fr_failure :: failure
  fr_protocol :: string
  fr_actions_taken :: "string list"
  fr_status :: string

record failure_handler =
  fh_active_failures :: "active_failure list"
  fh_failure_history :: "active_failure list"

definition FailureHandler_init :: failure_handler where
  "FailureHandler_init = \<lparr>fh_active_failures = [], fh_failure_history = []\<rparr>"

text \<open>\<^verbatim>\<open>_init_protocols\<close>: the name and the advisory actions of each failure type.\<close>

fun protocol_name :: "failure_type \<Rightarrow> string" where
  "protocol_name NO_BEDS_ANYWHERE = ''Emergency Bed Expansion Protocol''"
| "protocol_name OXYGEN_EXHAUSTED = ''Oxygen Emergency Protocol''"
| "protocol_name NO_AMBULANCES = ''Transport Emergency Protocol''"
| "protocol_name SUPPLY_DEPLETED = ''Supply Chain Emergency Protocol''"
| "protocol_name COMMUNICATION_FAILURE = ''Communication Backup Protocol''"
| "protocol_name SYSTEM_OVERLOAD = ''System Overload Protocol''"

fun protocol_actions :: "failure_type \<Rightarrow> string list" where
  "protocol_actions NO_BEDS_ANYWHERE =
     [''Activate overflow capacity at all hospitals'', ''Request field hospital deployment'',
      ''Prioritize critical patients only'', ''Implement triage protocols'']"
| "protocol_actions OXYGEN_EXHAUSTED =
     [''Redistribute from lower-priority facilities'', ''Emergency airlift request'',
      ''Implement oxygen rationing'', ''Prioritize ICU patients'']"
| "protocol_actions NO_AMBULANCES =
     [''Activate reserve vehicles'', ''Request military/police transport'',
      ''Establish triage collection points'', ''Priority-based patient staging'']"
| "protocol_actions SUPPLY_DEPLETED =
     [''Emergency procurement activated'', ''Regional supply sharing initiated'',
      ''Non-essential deliveries suspended'', ''Rationing protocols in effect'']"
| "protocol_actions COMMUNICATION_FAILURE =
     [''Switch to backup channels'', ''Activate radio networks'',
      ''Deploy communication officers'', ''Implement local decision authority'']"
| "protocol_actions SYSTEM_OVERLOAD =
     [''Reduce update frequency'', ''Prioritize critical operations'',
      ''Queue non-urgent requests'', ''Scale processing capacity'']"

text \<open>The four predicates of \<^verbatim>\<open>detect_failures\<close>, in the order they are tested.\<close>

definition no_beds_anywhere :: "(string \<times> hospital_state) list \<Rightarrow> bool" where
  "no_beds_anywhere hospitals =
     (sum_list (map (\<lambda>kv. hs_available_beds (snd kv)) hospitals) = 0
      \<and> sum_list (map (\<lambda>kv. hs_icu_available (snd kv)) hospitals) = 0)"

definition hospitals_without_oxygen :: "(string \<times> hospital_state) list \<Rightarrow> string list" where
  "hospitals_without_oxygen hospitals =
     map fst (filter (\<lambda>kv. hs_oxygen_units (snd kv) \<le> 5) hospitals)"

definition fuelled_available_ambulances :: "(string \<times> ambulance_state) list \<Rightarrow> string list" where
  "fuelled_available_ambulances ambulances =
     map fst (filter (\<lambda>kv. as_available (snd kv) \<and> as_fuel (snd kv) > 15) ambulances)"

definition depleted_supplies :: "supply_state \<Rightarrow> string list" where
  "depleted_supplies supply =
     filter (\<lambda>s. dict_get (ss_inventory supply) s 0 \<le> 10) [''oxygen'', ''medicine'']"

definition detect_failures ::
  "(string \<times> hospital_state) list \<Rightarrow> (string \<times> ambulance_state) list \<Rightarrow> supply_state
   \<Rightarrow> failure list" where
  "detect_failures hospitals ambulances supply =
     (if no_beds_anywhere hospitals
      then [\<lparr>f_type = NO_BEDS_ANYWHERE, f_severity = ''critical'', f_affected = None\<rparr>]
      else [])
     @ (if real (length (hospitals_without_oxygen hospitals)) \<ge> real (length hospitals) * 0.5
        then [\<lparr>f_type = OXYGEN_EXHAUSTED, f_severity = ''critical'',
               f_affected = Some (hospitals_without_oxygen hospitals)\<rparr>]
        else [])
     @ (if length (fuelled_available_ambulances ambulances) = 0
        then [\<lparr>f_type = NO_AMBULANCES, f_severity = ''high'', f_affected = None\<rparr>]
        else [])
     @ (if depleted_supplies supply \<noteq> []
        then [\<lparr>f_type = SUPPLY_DEPLETED, f_severity = ''high'',
               f_affected = Some (depleted_supplies supply)\<rparr>]
        else [])"

definition handle_failure ::
  "failure_handler \<Rightarrow> failure \<Rightarrow> failure_response \<times> failure_handler" where
  "handle_failure fh fl =
     (\<lparr>fr_failure = fl, fr_protocol = protocol_name (f_type fl),
       fr_actions_taken = protocol_actions (f_type fl), fr_status = ''activated''\<rparr>,
      fh\<lparr>fh_active_failures := fh_active_failures fh @
            [\<lparr>af_type = f_type fl, af_severity = f_severity fl,
              af_affected = f_affected fl, af_protocol = protocol_name (f_type fl)\<rparr>]\<rparr>)"

definition already_active :: "failure_handler \<Rightarrow> failure_type \<Rightarrow> bool" where
  "already_active fh t = list_ex (\<lambda>f. af_type f = t) (fh_active_failures fh)"

text \<open>The loop of \<^verbatim>\<open>check_and_handle_failures\<close> over the detected failures.\<close>

fun handle_all ::
  "failure_handler \<Rightarrow> failure list \<Rightarrow> failure_response list \<times> failure_handler" where
  "handle_all fh [] = ([], fh)"
| "handle_all fh (fl # fls) =
     (if \<not> already_active fh (f_type fl)
      then (let r = handle_failure fh fl; rest = handle_all (snd r) fls
            in (fst r # fst rest, snd rest))
      else handle_all fh fls)"

definition check_and_handle_failures ::
  "failure_handler \<Rightarrow> (string \<times> hospital_state) list \<Rightarrow> (string \<times> ambulance_state) list
   \<Rightarrow> supply_state \<Rightarrow> failure_response list \<times> failure_handler" where
  "check_and_handle_failures fh hospitals ambulances supply =
     handle_all fh (detect_failures hospitals ambulances supply)"

text \<open>
  \<^verbatim>\<open>resolve_failure\<close>: the first active failure of the type moves to the history. No
  code of the repository calls it.
\<close>

fun remove_first_of_type ::
  "failure_type \<Rightarrow> active_failure list \<Rightarrow> (active_failure \<times> active_failure list) option" where
  "remove_first_of_type t [] = None"
| "remove_first_of_type t (f # fs) =
     (if af_type f = t then Some (f, fs)
      else map_option (\<lambda>r. (fst r, f # snd r)) (remove_first_of_type t fs))"

definition resolve_failure :: "failure_handler \<Rightarrow> failure_type \<Rightarrow> bool \<times> failure_handler" where
  "resolve_failure fh t =
     (case remove_first_of_type t (fh_active_failures fh) of
        None \<Rightarrow> (False, fh)
      | Some r \<Rightarrow> (True, \<lparr>fh_active_failures = snd r,
                          fh_failure_history = fh_failure_history fh @ [fst r]\<rparr>))"

text \<open>
  The ledgers the handler sees on one tick, and its calls over consecutive ticks: one
  \<^verbatim>\<open>check_and_handle_failures\<close> per tick (\<^verbatim>\<open>Simulator.step\<close>, step 8) on the same handler.
\<close>

type_synonym ledgers =
  "(string \<times> hospital_state) list \<times> (string \<times> ambulance_state) list \<times> supply_state"

fun check_ticks ::
  "failure_handler \<Rightarrow> ledgers list \<Rightarrow> failure_response list list \<times> failure_handler" where
  "check_ticks fh [] = ([], fh)"
| "check_ticks fh (l # ls) =
     (let r = check_and_handle_failures fh (fst l) (fst (snd l)) (snd (snd l));
          rest = check_ticks (snd r) ls
      in (fst r # fst rest, snd rest))"

definition alerts_of_type :: "failure_type \<Rightarrow> failure_response list \<Rightarrow> failure_response list" where
  "alerts_of_type t responses = filter (\<lambda>r. f_type (fr_failure r) = t) responses"

text \<open>
  \<^verbatim>\<open>_generate_requests\<close>. The text of the staffing request contains
  \<^verbatim>\<open>round(1/self.nurse_patient_ratio, 1)\<close>, which raises when the ratio is zero.
\<close>

definition hospital_generate_requests :: "hospital \<Rightarrow> py_error + request list" where
  "hospital_generate_requests h =
     (let r1 = (if oxygen_status h \<noteq> ''adequate''
                then [\<lparr>rq_resource = ''oxygen'', rq_quantity = 100,
                        rq_urgency = (if oxygen_hours_remaining h \<le> 4 then ''critical''
                                      else ''high'')\<rparr>]
                else []);
          r2 = (if requires_diversion h
                then [\<lparr>rq_resource = ''patient_diversion'', rq_quantity = 1,
                        rq_urgency = ''critical''\<rparr>]
                else if is_overloaded h
                then [\<lparr>rq_resource = ''surge_support'', rq_quantity = 1,
                        rq_urgency = ''high''\<rparr>]
                else [])
      in if \<not> staffing_adequate h \<and> icu_patients h > 0
         then (if nurse_patient_ratio h = Some 0 then Inl ZeroDivisionError
               else Inr (r1 @ r2 @ [\<lparr>rq_resource = ''nursing_staff'', rq_quantity = 2,
                                       rq_urgency = ''high''\<rparr>]))
         else Inr (r1 @ r2))"

text \<open>
  \<^verbatim>\<open>HospitalAgent.generate_message\<close>, with the keys the engine reads. The location is
  written by \<^verbatim>\<open>Simulator.step\<close> afterwards; the field holds the hospital's own here.
\<close>

definition hospital_generate_message :: "hospital \<Rightarrow> py_error + hospital_message" where
  "hospital_generate_message h =
     (case hospital_generate_requests h of
        Inl err \<Rightarrow> Inl err
      | Inr reqs \<Rightarrow>
          Inr \<lparr>hm_agent_id = h_agent_id h, hm_name = h_name h, hm_location = h_location h,
               hm_available_beds = h_available_beds h, hm_icu_available = h_icu_available h,
               hm_priority_score = calculate_priority_score h, hm_requests = reqs\<rparr>)"

subsection \<open>Ambulance agent\<close>

record ambulance =
  a_agent_id :: string
  a_location :: location
  a_capacity :: int
  a_current_patients :: "patient list"
  a_fuel :: real
  a_available :: bool
  a_status :: string
  a_target_patient :: "patient option"
  a_target_hospital :: "string option"
  a_destination :: "location option"
  a_eta_minutes :: real
  a_patients_delivered :: int
  a_total_distance :: real

definition AmbulanceAgent_init ::
  "string \<Rightarrow> location \<Rightarrow> int \<Rightarrow> real \<Rightarrow> bool \<Rightarrow> ambulance" where
  "AmbulanceAgent_init agent_id location capacity fuel available =
     \<lparr>a_agent_id = agent_id, a_location = location, a_capacity = capacity,
      a_current_patients = [], a_fuel = fuel, a_available = available, a_status = ''idle'',
      a_target_patient = None, a_target_hospital = None, a_destination = None,
      a_eta_minutes = 0, a_patients_delivered = 0, a_total_distance = 0\<rparr>"

text \<open>\<^verbatim>\<open>is_available\<close>, with \<^verbatim>\<open>FUEL_CRITICAL_LEVEL = 0.15\<close>.\<close>

definition is_available :: "ambulance \<Rightarrow> bool" where
  "is_available a =
     (a_available a \<and> a_status a = ''idle''
      \<and> int (length (a_current_patients a)) < a_capacity a \<and> a_fuel a > 0.15)"

text \<open>
  \<^verbatim>\<open>AmbulanceAgent.generate_message\<close>: \<^verbatim>\<open>current_capacity\<close> holds the free slots and
  the fuel level; the message has neither a \<^verbatim>\<open>location\<close> nor a \<^verbatim>\<open>status\<close> key.
\<close>

definition ambulance_generate_message :: "ambulance \<Rightarrow> ambulance_message" where
  "ambulance_generate_message a =
     \<lparr>am_agent_id = a_agent_id a, am_location = None,
      am_available_slots = a_capacity a - int (length (a_current_patients a)),
      am_fuel_level = a_fuel a\<rparr>"

definition ambulance_get_state :: "ambulance \<Rightarrow> ambulance_state" where
  "ambulance_get_state a =
     \<lparr>as_capacity = a_capacity a, as_current_load = int (length (a_current_patients a)),
      as_fuel = py_round1 (a_fuel a * 100), as_status = a_status a,
      as_available = is_available a\<rparr>"

text \<open>\<^verbatim>\<open>_calculate_eta\<close>, with \<^verbatim>\<open>AMBULANCE_SPEED = 40\<close>.\<close>

definition ambulance_calculate_eta :: "ambulance \<Rightarrow> ambulance" where
  "ambulance_calculate_eta a =
     (case a_destination a of
        None \<Rightarrow> a
      | Some dest \<Rightarrow> a\<lparr>a_eta_minutes := calculate_distance (a_location a) dest / 40 * 60\<rparr>)"

definition assign_mission :: "ambulance \<Rightarrow> patient \<Rightarrow> string \<Rightarrow> location \<Rightarrow> ambulance" where
  "assign_mission a patient hospital_id hospital_location =
     ambulance_calculate_eta
       (a\<lparr>a_target_patient := Some patient, a_target_hospital := Some hospital_id,
          a_status := ''en_route_pickup'', a_destination := Some (p_location patient)\<rparr>)"

text \<open>\<^verbatim>\<open>_move_toward\<close> with its default \<^verbatim>\<open>speed_factor = 5.0\<close>: arrived or not, and the unit.\<close>

definition move_toward :: "ambulance \<Rightarrow> location \<Rightarrow> bool \<times> ambulance" where
  "move_toward a target =
     (let dx = fst target - fst (a_location a);
          dy = snd target - snd (a_location a);
          distance = sqrt (dx\<^sup>2 + dy\<^sup>2)
      in if distance < 5 then (True, a\<lparr>a_location := target\<rparr>)
         else (let ratio = 5 / distance
               in (False, ambulance_calculate_eta
                     (a\<lparr>a_location := (fst (a_location a) + dx * ratio,
                                       snd (a_location a) + dy * ratio),
                        a_total_distance := a_total_distance a + 5\<rparr>))))"

datatype ambulance_action =
  PatientPickedUp string string
  | PatientDelivered string "string option" string

definition ambulance_update :: "ambulance \<Rightarrow> int \<Rightarrow> ambulance_action list \<times> ambulance" where
  "ambulance_update a tick =
     (let r =
        (if a_status a = ''en_route_pickup'' \<and> a_destination a \<noteq> None
         then (let m = move_toward a (the (a_destination a))
               in if fst m
                  then (case a_target_patient (snd m) of
                          None \<Rightarrow> ([], snd m)
                        | Some tp \<Rightarrow>
                            ([PatientPickedUp (p_id tp) (a_agent_id a)],
                             (snd m)\<lparr>a_current_patients := a_current_patients (snd m) @ [tp],
                                     a_status := ''en_route_hospital''\<rparr>))
                  else ([], snd m))
         else if a_status a = ''en_route_hospital'' \<and> a_destination a \<noteq> None
         then (let m = move_toward a (the (a_destination a))
               in if fst m
                  then (map (\<lambda>p. PatientDelivered (p_id p) (a_target_hospital a) (a_agent_id a))
                          (a_current_patients (snd m)),
                        (snd m)\<lparr>a_patients_delivered :=
                                  a_patients_delivered (snd m)
                                  + int (length (a_current_patients (snd m))),
                                a_current_patients := [], a_target_patient := None,
                                a_target_hospital := None, a_status := ''idle'',
                                a_destination := None\<rparr>)
                  else ([], snd m))
         else ([], a))
      in if a_status (snd r) \<noteq> ''idle''
         then (fst r, (snd r)\<lparr>a_fuel := max 0 (a_fuel (snd r) - 0.02)\<rparr>)
         else r)"

subsection \<open>Supply agent\<close>

record pending_request =
  pq_requester_id :: string
  pq_requester_location :: location
  pq_supply_type :: string
  pq_quantity :: int
  pq_urgency :: string

text \<open>A delivery; \<open>dl_number\<close> is the number its \<^verbatim>\<open>id\<close> text is rendered from.\<close>

record delivery =
  dl_number :: nat
  dl_supply_type :: string
  dl_quantity :: int
  dl_destination_id :: string
  dl_destination_location :: location
  dl_eta_minutes :: real
  dl_status :: string

record supply_agent =
  su_agent_id :: string
  su_name :: string
  su_location :: location
  su_inventory :: "string \<rightharpoonup> int"
  su_delivery_vehicles :: int
  su_vehicles_available :: int
  su_active_deliveries :: "delivery list"
  su_completed_deliveries :: "delivery list"
  su_pending_requests :: "pending_request list"

definition SupplyAgent_init ::
  "string \<Rightarrow> string \<Rightarrow> location \<Rightarrow> int \<Rightarrow> int \<Rightarrow> int \<Rightarrow> int \<Rightarrow> int \<Rightarrow> supply_agent" where
  "SupplyAgent_init agent_id name location food_units water_units oxygen_units medicine_units
       delivery_vehicles =
     \<lparr>su_agent_id = agent_id, su_name = (if name = [] then agent_id else name),
      su_location = location,
      su_inventory = [''food'' \<mapsto> food_units, ''water'' \<mapsto> water_units,
                      ''oxygen'' \<mapsto> oxygen_units, ''medicine'' \<mapsto> medicine_units],
      su_delivery_vehicles = delivery_vehicles, su_vehicles_available = delivery_vehicles,
      su_active_deliveries = [], su_completed_deliveries = [], su_pending_requests = []\<rparr>"

definition has_available_vehicles :: "supply_agent \<Rightarrow> bool" where
  "has_available_vehicles su = (su_vehicles_available su > 0)"

definition supply_generate_message :: "supply_agent \<Rightarrow> supply_message" where
  "supply_generate_message su =
     \<lparr>sm_inventory = su_inventory su, sm_vehicles_available = su_vehicles_available su\<rparr>"

definition supply_get_state :: "supply_agent \<Rightarrow> supply_state" where
  "supply_get_state su =
     \<lparr>ss_inventory = su_inventory su, ss_vehicles_available = su_vehicles_available su\<rparr>"

text \<open>
  \<^verbatim>\<open>allocate_supply\<close>. \<^verbatim>\<open>self.inventory[supply_type] -= quantity\<close> raises for a
  supply type the inventory does not hold.
\<close>

definition allocate_supply ::
  "supply_agent \<Rightarrow> string \<Rightarrow> int \<Rightarrow> string \<Rightarrow> location
   \<Rightarrow> py_error + delivery option \<times> supply_agent" where
  "allocate_supply su supply_type quantity destination_id destination_location =
     (let available = dict_get (su_inventory su) supply_type 0
      in if available < quantity \<or> \<not> has_available_vehicles su then Inr (None, su)
         else case su_inventory su supply_type of
           None \<Rightarrow> Inl (KeyError supply_type)
         | Some v \<Rightarrow>
             (let d = \<lparr>dl_number = length (su_active_deliveries su),
                       dl_supply_type = supply_type, dl_quantity = quantity,
                       dl_destination_id = destination_id,
                       dl_destination_location = destination_location,
                       dl_eta_minutes =
                         calculate_distance (su_location su) destination_location / 40 * 60,
                       dl_status = ''in_transit''\<rparr>
              in Inr (Some d,
                      su\<lparr>su_inventory := (su_inventory su)(supply_type \<mapsto> v - quantity),
                         su_vehicles_available := su_vehicles_available su - 1,
                         su_active_deliveries := su_active_deliveries su @ [d]\<rparr>)))"

text \<open>
  The loop of \<^verbatim>\<open>process_pending_requests\<close>: the deliveries made, the requests they
  served, and the agent. It stops at the first request that finds no free vehicle.
\<close>

fun process_loop ::
  "pending_request list \<Rightarrow> supply_agent
   \<Rightarrow> py_error + delivery list \<times> pending_request list \<times> supply_agent" where
  "process_loop [] su = Inr ([], [], su)"
| "process_loop (request # requests) su =
     (if \<not> has_available_vehicles su then Inr ([], [], su)
      else
        (let supply_type = pq_supply_type request;
             quantity = min (pq_quantity request) (dict_get (su_inventory su) supply_type 0)
         in if quantity > 0
            then (case allocate_supply su supply_type quantity (pq_requester_id request)
                         (pq_requester_location request) of
                    Inl err \<Rightarrow> Inl err
                  | Inr (None, su') \<Rightarrow> process_loop requests su'
                  | Inr (Some d, su') \<Rightarrow>
                      (case process_loop requests su' of
                         Inl err \<Rightarrow> Inl err
                       | Inr (ds, processed, su'') \<Rightarrow> Inr (d # ds, request # processed, su'')))
            else process_loop requests su))"

definition process_pending_requests :: "supply_agent \<Rightarrow> py_error + delivery list \<times> supply_agent" where
  "process_pending_requests su =
     (case process_loop (su_pending_requests su) su of
        Inl err \<Rightarrow> Inl err
      | Inr (ds, processed, su') \<Rightarrow>
          Inr (ds, su'\<lparr>su_pending_requests :=
                         foldl (\<lambda>pending req. remove1 req pending)
                           (su_pending_requests su') processed\<rparr>))"

text \<open>\<^verbatim>\<open>SupplyAgent.update\<close>: every delivery moves five minutes on; the arrived ones free
  their vehicle and move to the completed list.\<close>

definition supply_update :: "supply_agent \<Rightarrow> int \<Rightarrow> supply_agent" where
  "supply_update su tick =
     (let moved = map (\<lambda>d. d\<lparr>dl_eta_minutes := max 0 (dl_eta_minutes d - 5)\<rparr>)
                    (su_active_deliveries su);
          completed = map (\<lambda>d. d\<lparr>dl_status := ''completed''\<rparr>)
                        (filter (\<lambda>d. dl_eta_minutes d \<le> 0) moved)
      in su\<lparr>su_active_deliveries := filter (\<lambda>d. \<not> dl_eta_minutes d \<le> 0) moved,
            su_completed_deliveries := su_completed_deliveries su @ completed,
            su_vehicles_available := su_vehicles_available su + int (length completed)\<rparr>)"

subsection \<open>Government agent\<close>

record government =
  g_agent_id :: string
  g_disaster_severity :: real
  g_fairness_weight :: real

definition GovernmentAgent_init :: "string \<Rightarrow> real \<Rightarrow> real \<Rightarrow> government" where
  "GovernmentAgent_init agent_id disaster_severity fairness_weight =
     \<lparr>g_agent_id = agent_id, g_disaster_severity = disaster_severity,
      g_fairness_weight = fairness_weight\<rparr>"

definition calculate_priority_multipliers ::
  "(string \<times> hospital_state) list \<Rightarrow> (string \<rightharpoonup> real)" where
  "calculate_priority_multipliers hospitals =
     foldl (\<lambda>m kv.
        (let b1 = (if hs_is_critical (snd kv) then 1 * 1.5 else 1);
             b2 = (if hs_oxygen_units (snd kv) < 30 then b1 * 1.3 else b1)
         in m(fst kv \<mapsto> b2))) Map.empty hospitals"

definition government_update :: "government \<Rightarrow> int \<Rightarrow> government" where
  "government_update g tick =
     (if tick mod 10 = 0 \<and> g_disaster_severity g > 0.3
      then g\<lparr>g_disaster_severity := max 0.3 (g_disaster_severity g - 0.02)\<rparr>
      else g)"

subsection \<open>Simulator\<close>

text \<open>
  The simulator with the agents and the core components its step reads and writes. The
  event bus, the global-state mirror, the logger, the explainer and the metrics tracker
  only record what happens and are left out.
\<close>

record simulator =
  sim_tick :: int
  sim_running :: bool
  sim_hospitals :: "(string \<times> hospital) list"
  sim_ambulances :: "(string \<times> ambulance) list"
  sim_supply :: "supply_agent option"
  sim_government :: "government option"
  sim_waiting_patients :: "patient list"
  sim_negotiation_engine :: negotiation_engine
  sim_failure_handler :: failure_handler

definition Simulator_init :: simulator where
  "Simulator_init =
     \<lparr>sim_tick = 0, sim_running = False, sim_hospitals = [], sim_ambulances = [],
      sim_supply = None, sim_government = None, sim_waiting_patients = [],
      sim_negotiation_engine = \<lparr>ne_current_round = 0, ne_negotiation_rounds = []\<rparr>,
      sim_failure_handler = FailureHandler_init\<rparr>"

definition reset :: "simulator \<Rightarrow> simulator" where
  "reset s = Simulator_init"

text \<open>
  The scenario configuration (\<^verbatim>\<open>config/scenario.py\<close>). The records are the
  configurations in which a hospital, an ambulance and the government entry hold every
  key \<^verbatim>\<open>initialize\<close> reads, and the supply dictionary its \<^verbatim>\<open>id\<close>, \<^verbatim>\<open>name\<close> and
  \<^verbatim>\<open>location\<close>; a dictionary without one of these raises \<^verbatim>\<open>KeyError\<close> in the source
  and is not a value of these types. The integer-valued keys of the supply dictionary
  are a map, read key by key, and a missing one raises.
\<close>

record hospital_config =
  hcf_id :: string
  hcf_name :: string
  hcf_location :: location
  hcf_total_beds :: int
  hcf_available_beds :: int
  hcf_icu_beds :: int
  hcf_icu_available :: int
  hcf_oxygen_units :: int
  hcf_doctors_on_duty :: int
  hcf_patient_inflow_rate :: real

record ambulance_config =
  acf_id :: string
  acf_location :: location
  acf_capacity :: int
  acf_fuel :: real
  acf_available :: bool

record supply_config =
  scf_id :: string
  scf_name :: string
  scf_location :: location
  scf_units :: "string \<rightharpoonup> int"

record government_config =
  gcf_id :: string
  gcf_disaster_severity :: real
  gcf_fairness_weight :: real

definition HOSPITALS_CONFIG :: "hospital_config list" where
  "HOSPITALS_CONFIG =
     [\<lparr>hcf_id = ''hospital_a'', hcf_name = ''City General Hospital'', hcf_location = (25, 30),
       hcf_total_beds = 100, hcf_available_beds = 10, hcf_icu_beds = 10,
       hcf_icu_available = 1, hcf_oxygen_units = 3000, hcf_doctors_on_duty = 12,
       hcf_patient_inflow_rate = 8\<rparr>,
      \<lparr>hcf_id = ''hospital_b'', hcf_name = ''District Medical Center'', hcf_location = (60, 45),
       hcf_total_beds = 80, hcf_available_beds = 45, hcf_icu_beds = 8,
       hcf_icu_available = 6, hcf_oxygen_units = 8000, hcf_doctors_on_duty = 8,
       hcf_patient_inflow_rate = 2\<rparr>,
      \<lparr>hcf_id = ''hospital_c'', hcf_name = ''Emergency Care Unit'', hcf_location = (40, 70),
       hcf_total_beds = 50, hcf_available_beds = 20, hcf_icu_beds = 4,
       hcf_icu_available = 0, hcf_oxygen_units = 4000, hcf_doctors_on_duty = 6,
       hcf_patient_inflow_rate = 3\<rparr>]"

definition AMBULANCES_CONFIG :: "ambulance_config list" where
  "AMBULANCES_CONFIG =
     [\<lparr>acf_id = ''AMB-1'', acf_location = (30, 35), acf_capacity = 2, acf_fuel = 0.9,
       acf_available = True\<rparr>,
      \<lparr>acf_id = ''AMB-2'', acf_location = (55, 40), acf_capacity = 2, acf_fuel = 0.75,
       acf_available = True\<rparr>,
      \<lparr>acf_id = ''AMB-3'', acf_location = (45, 65), acf_capacity = 2, acf_fuel = 0.85,
       acf_available = True\<rparr>,
      \<lparr>acf_id = ''AMB-4'', acf_location = (20, 50), acf_capacity = 2, acf_fuel = 0.6,
       acf_available = True\<rparr>,
      \<lparr>acf_id = ''AMB-5'', acf_location = (70, 30), acf_capacity = 2, acf_fuel = 0.95,
       acf_available = True\<rparr>]"

text \<open>
  \<^verbatim>\<open>SUPPLY_CONFIG\<close> as shipped: its integer-valued keys are \<^verbatim>\<open>delivery_vehicles\<close> and
  \<^verbatim>\<open>max_delivery_capacity\<close>; the stock is under the nested \<^verbatim>\<open>inventory\<close> key, which
  \<^verbatim>\<open>initialize\<close> does not read.
\<close>

definition SUPPLY_CONFIG :: supply_config where
  "SUPPLY_CONFIG =
     \<lparr>scf_id = ''supply_central'', scf_name = ''Central Supply Depot'',
      scf_location = (50, 50),
      scf_units = [''delivery_vehicles'' \<mapsto> 4, ''max_delivery_capacity'' \<mapsto> 100]\<rparr>"

definition GOVERNMENT_CONFIG :: government_config where
  "GOVERNMENT_CONFIG =
     \<lparr>gcf_id = ''regional_authority'', gcf_disaster_severity = 0.8,
      gcf_fairness_weight = 0.7\<rparr>"

text \<open>\<^verbatim>\<open>SUPPLY_CONFIG[key]\<close>\<close>

definition config_lookup :: "supply_config \<Rightarrow> string \<Rightarrow> py_error + int" where
  "config_lookup cfg key =
     (case scf_units cfg key of None \<Rightarrow> Inl (KeyError key) | Some v \<Rightarrow> Inr v)"

text \<open>The arguments of \<^verbatim>\<open>SupplyAgent(...)\<close> are evaluated in the order they are written.\<close>

definition supply_of_config :: "supply_config \<Rightarrow> py_error + supply_agent" where
  "supply_of_config cfg =
     (case config_lookup cfg ''food_units'' of Inl e \<Rightarrow> Inl e | Inr food \<Rightarrow>
      case config_lookup cfg ''water_units'' of Inl e \<Rightarrow> Inl e | Inr water \<Rightarrow>
      case config_lookup cfg ''oxygen_units'' of Inl e \<Rightarrow> Inl e | Inr oxygen \<Rightarrow>
      case config_lookup cfg ''medicine_units'' of Inl e \<Rightarrow> Inl e | Inr medicine \<Rightarrow>
      case config_lookup cfg ''delivery_vehicles'' of Inl e \<Rightarrow> Inl e | Inr vehicles \<Rightarrow>
        Inr (SupplyAgent_init (scf_id cfg) (scf_name cfg) (scf_location cfg)
               food water oxygen medicine vehicles))"

definition hospital_of_config :: "hospital_config \<Rightarrow> hospital" where
  "hospital_of_config c =
     HospitalAgent_init (hcf_id c) (hcf_name c) (hcf_location c) (hcf_total_beds c)
       (hcf_available_beds c) (hcf_icu_beds c) (hcf_icu_available c)
       (real_of_int (hcf_oxygen_units c)) (hcf_doctors_on_duty c)
       (hcf_patient_inflow_rate c) None"

definition ambulance_of_config :: "ambulance_config \<Rightarrow> ambulance" where
  "ambulance_of_config c =
     AmbulanceAgent_init (acf_id c) (acf_location c) (acf_capacity c) (acf_fuel c)
       (acf_available c)"

record init_report =
  ir_status :: string
  ir_hospitals :: nat
  ir_ambulances :: nat
  ir_initial_patients :: nat
  ir_critical_patients :: nat

text \<open>
  \<^verbatim>\<open>Simulator.initialize\<close>, with the configuration and the casualties that the random
  generator returns as arguments (a generator that raises, as on an empty list of
  disaster zones, is outside the model). An exception leaves the simulator as far as it
  was built, not running.
\<close>

definition initialize ::
  "simulator \<Rightarrow> hospital_config list \<Rightarrow> ambulance_config list \<Rightarrow> supply_config
   \<Rightarrow> government_config \<Rightarrow> patient list \<Rightarrow> (py_error + init_report) \<times> simulator" where
  "initialize s hospitals_config ambulances_config supply_cfg government_cfg casualties =
     (let s0 = reset s;
          s1 = s0\<lparr>sim_hospitals :=
                    foldl (\<lambda>m c. AList.update (hcf_id c) (hospital_of_config c) m) []
                      hospitals_config\<rparr>;
          s2 = s1\<lparr>sim_ambulances :=
                    foldl (\<lambda>m c. AList.update (acf_id c) (ambulance_of_config c) m) []
                      ambulances_config\<rparr>
      in case supply_of_config supply_cfg of
           Inl err \<Rightarrow> (Inl err, s2)
         | Inr su \<Rightarrow>
             (let s3 = s2\<lparr>sim_supply := Some su,
                          sim_government :=
                            Some (GovernmentAgent_init (gcf_id government_cfg)
                                    (gcf_disaster_severity government_cfg)
                                    (gcf_fairness_weight government_cfg)),
                          sim_waiting_patients := casualties,
                          sim_running := True\<rparr>
              in (Inr \<lparr>ir_status = ''initialized'',
                       ir_hospitals = length (sim_hospitals s3),
                       ir_ambulances = length (sim_ambulances s3),
                       ir_initial_patients = length casualties,
                       ir_critical_patients =
                         length (filter (\<lambda>p. p_severity p = ''critical'') casualties)\<rparr>,
                  s3)))"

text \<open>The result of one step: the error dictionary, an exception, or the step report.\<close>

record step_result =
  st_tick :: int
  st_actions :: "ambulance_action list"
  st_alerts :: "failure_response list"

datatype step_outcome = StepError string | StepRaised py_error | StepReport step_result

text \<open>\<^verbatim>\<open>[h.generate_message() for h in self.hospitals.values()]\<close>\<close>

fun collect_hospital_messages :: "hospital list \<Rightarrow> py_error + hospital_message list" where
  "collect_hospital_messages [] = Inr []"
| "collect_hospital_messages (h # hs) =
     (case hospital_generate_message h of
        Inl err \<Rightarrow> Inl err
      | Inr m \<Rightarrow>
          (case collect_hospital_messages hs of
             Inl err \<Rightarrow> Inl err
           | Inr ms \<Rightarrow> Inr (m # ms)))"

text \<open>
  "Add location info to hospital messages": a message whose agent is not a key of
  \<^verbatim>\<open>self.hospitals\<close> gets no location, and the engine then reads its default.
\<close>

definition add_location_info :: "(string \<times> hospital) list \<Rightarrow> hospital_message \<Rightarrow> hospital_message" where
  "add_location_info hospitals msg =
     (case map_of hospitals (hm_agent_id msg) of
        None \<Rightarrow> msg\<lparr>hm_location := default_location\<rparr>
      | Some h \<Rightarrow> msg\<lparr>hm_location := h_location h, hm_name := h_name h\<rparr>)"

text \<open>\<^verbatim>\<open>{h.agent_id: h.get_state() for h in self.hospitals.values()}\<close>, and for ambulances.\<close>

definition hospital_states :: "(string \<times> hospital) list \<Rightarrow> (string \<times> hospital_state) list" where
  "hospital_states hospitals =
     foldl (\<lambda>m kv. AList.update (h_agent_id (snd kv)) (hospital_get_state (snd kv)) m) []
       hospitals"

definition ambulance_states :: "(string \<times> ambulance) list \<Rightarrow> (string \<times> ambulance_state) list" where
  "ambulance_states ambulances =
     foldl (\<lambda>m kv. AList.update (a_agent_id (snd kv)) (ambulance_get_state (snd kv)) m) []
       ambulances"

text \<open>
  Step 4, "apply allocations". For an assignment whose hospital exists the guard calls
  \<^verbatim>\<open>hospital.can_accept_patient(pa["patient_severity"])\<close> with the severity text, and
  \<^verbatim>\<open>esi_level <= 2\<close> on a \<^verbatim>\<open>str\<close> raises \<^verbatim>\<open>TypeError\<close>: the loop either skips every
  assignment or raises at the first one it does not skip.
\<close>

fun apply_patient_assignments :: "(string \<times> hospital) list \<Rightarrow> assignment list \<Rightarrow> py_error option" where
  "apply_patient_assignments hospitals [] = None"
| "apply_patient_assignments hospitals (pa # pas) =
     (case map_of hospitals (pa_assigned_hospital pa) of
        None \<Rightarrow> apply_patient_assignments hospitals pas
      | Some hospital \<Rightarrow> Some TypeError)"

text \<open>Step 5, "dispatch ambulances".\<close>

fun dispatch_ambulances ::
  "(string \<times> hospital) list \<Rightarrow> patient list \<Rightarrow> ambulance_assignment list
   \<Rightarrow> (string \<times> ambulance) list \<Rightarrow> (string \<times> ambulance) list" where
  "dispatch_ambulances hospitals waiting [] ambulances = ambulances"
| "dispatch_ambulances hospitals waiting (aa # aas) ambulances =
     (case map_of ambulances (aa_ambulance_id aa) of
        None \<Rightarrow> dispatch_ambulances hospitals waiting aas ambulances
      | Some amb \<Rightarrow>
          (case map_of hospitals (aa_hospital_id aa) of
             None \<Rightarrow> dispatch_ambulances hospitals waiting aas ambulances
           | Some hospital \<Rightarrow>
               (if is_available amb
                then (case find (\<lambda>p. p_id p = aa_patient_id aa) waiting of
                        None \<Rightarrow> dispatch_ambulances hospitals waiting aas ambulances
                      | Some patient_data \<Rightarrow>
                          dispatch_ambulances hospitals waiting aas
                            (AList.update (aa_ambulance_id aa)
                               ((assign_mission amb patient_data (aa_hospital_id aa)
                                   (h_location hospital))
                                \<lparr>a_destination := Some (h_location hospital)\<rparr>)
                               ambulances))
                else dispatch_ambulances hospitals waiting aas ambulances)))"

text \<open>Step 6: the oxygen allocations of the round become pending requests of the depot.\<close>

definition oxygen_requests ::
  "(string \<times> hospital) list \<Rightarrow> supply_allocation list \<Rightarrow> pending_request list" where
  "oxygen_requests hospitals allocations =
     concat (map (\<lambda>sa.
        (case map_of hospitals (sa_hospital_id sa) of
           None \<Rightarrow> []
         | Some hospital \<Rightarrow>
             if sa_resource sa = ''oxygen''
             then [\<lparr>pq_requester_id = sa_hospital_id sa,
                    pq_requester_location = h_location hospital,
                    pq_supply_type = sa_resource sa, pq_quantity = sa_quantity sa,
                    pq_urgency = sa_urgency sa\<rparr>]
             else [])) allocations)"

definition is_delivered :: "ambulance_action \<Rightarrow> bool" where
  "is_delivered act = (case act of PatientDelivered p h a \<Rightarrow> True | _ \<Rightarrow> False)"

text \<open>
  Steps 3 to 9 of a tick, once the messages are collected: negotiation, commit, agent
  updates and failure check.
\<close>

definition step_phases ::
  "int \<Rightarrow> hospital_message list \<Rightarrow> supply_agent \<Rightarrow> government \<Rightarrow> simulator
   \<Rightarrow> step_outcome \<times> simulator" where
  "step_phases tick messages su gov s =
     (let hospitals = sim_hospitals s;
          hospital_messages = map (add_location_info hospitals) messages;
          ambulance_messages = map (\<lambda>kv. ambulance_generate_message (snd kv)) (sim_ambulances s);
          multipliers = calculate_priority_multipliers (hospital_states hospitals);
          neg = run_negotiation (sim_negotiation_engine s) hospital_messages ambulance_messages
                  (supply_generate_message su) multipliers
                  (filter (\<lambda>p. p_status p = ''waiting'') (sim_waiting_patients s));
          s1 = s\<lparr>sim_negotiation_engine := snd neg\<rparr>
      in case apply_patient_assignments hospitals (rr_patient_assignments (fst neg)) of
           Some err \<Rightarrow> (StepRaised err, s1)
         | None \<Rightarrow>
             (let ambulances1 =
                    dispatch_ambulances hospitals (sim_waiting_patients s1)
                      (rr_ambulance_assignments (fst neg)) (sim_ambulances s1);
                  su1 = su\<lparr>su_pending_requests := su_pending_requests su @
                             oxygen_requests hospitals (rr_supply_allocations (fst neg))\<rparr>
              in case process_pending_requests su1 of
                   Inl err \<Rightarrow>
                     (StepRaised err, s1\<lparr>sim_ambulances := ambulances1, sim_supply := Some su1\<rparr>)
                 | Inr (deliveries, su2) \<Rightarrow>
                     (let hospitals2 =
                            map (\<lambda>kv. (fst kv, snd (hospital_update (snd kv) tick))) hospitals;
                          updates = map (\<lambda>kv. (fst kv, ambulance_update (snd kv) tick)) ambulances1;
                          ambulances2 = map (\<lambda>kv. (fst kv, snd (snd kv))) updates;
                          actions = concat (map (\<lambda>kv. filter is_delivered (fst (snd kv))) updates);
                          su3 = supply_update su2 tick;
                          gov1 = government_update gov tick;
                          chk = check_and_handle_failures (sim_failure_handler s1)
                                  (hospital_states hospitals2) (ambulance_states ambulances2)
                                  (supply_get_state su3)
                      in (StepReport \<lparr>st_tick = tick, st_actions = actions,
                                      st_alerts = fst chk\<rparr>,
                          s1\<lparr>sim_hospitals := hospitals2, sim_ambulances := ambulances2,
                             sim_supply := Some su3, sim_government := Some gov1,
                             sim_failure_handler := snd chk\<rparr>))))"

text \<open>
  \<^verbatim>\<open>Simulator.step\<close>. \<open>inflow\<close> is what \<^verbatim>\<open>generate_patient_inflow\<close> draws on a tick
  divisible by three. The guard on \<^verbatim>\<open>self.running\<close> is the first statement.
\<close>

definition step :: "patient list \<Rightarrow> simulator \<Rightarrow> step_outcome \<times> simulator" where
  "step inflow s =
     (if \<not> sim_running s
      then (StepError ''Simulation not running. Call initialize() first.'', s)
      else
        (let tick = sim_tick s + 1;
             s1 = s\<lparr>sim_tick := tick\<rparr>
         in if tick mod 3 = 0 \<and> sim_government s1 = None then (StepRaised AttributeError, s1)
            else
              (let s2 = (if tick mod 3 = 0
                         then s1\<lparr>sim_waiting_patients := sim_waiting_patients s1 @ inflow\<rparr>
                         else s1)
               in case collect_hospital_messages (map snd (sim_hospitals s2)) of
                    Inl err \<Rightarrow> (StepRaised err, s2)
                  | Inr messages \<Rightarrow>
                      (case sim_supply s2 of
                         None \<Rightarrow> (StepRaised AttributeError, s2)
                       | Some su \<Rightarrow>
                           (case sim_government s2 of
                              None \<Rightarrow> (StepRaised AttributeError, s2)
                            | Some gov \<Rightarrow> step_phases tick messages su gov s2)))))"

section \<open>Properties\<close>

subsection \<open>Acuity routing in the matching\<close>

text \<open>
  Claim C1 says that the matching places every acuity 1 or 2 patient (severity
  \<^verbatim>\<open>critical\<close> or \<^verbatim>\<open>high\<close>) in an ICU slot. The engine tests and consumes the ICU
  counter for the severity \<^verbatim>\<open>critical\<close> only. A waiting patient of severity \<^verbatim>\<open>high\<close>,
  which \<^verbatim>\<open>SEVERITY_TO_ESI\<close> maps to acuity 2, and the scenario's hospital C with 20 free
  beds and no free ICU slot: the engine proposes hospital C and takes one of its general
  beds, although the hospital's own acceptance check for that acuity refuses the
  patient for want of an ICU slot.
\<close>

theorem matching_routes_high_to_general_bed:
  "map pa_assigned_hospital
     (assign_patients_to_hospitals
        [\<lparr>p_id = ''patient_030'', p_severity = ''high'', p_location = (40, 70),
          p_status = ''waiting'', p_assigned_hospital = None\<rparr>]
        [\<lparr>hm_agent_id = ''hospital_c'', hm_name = ''Emergency Care Unit'',
          hm_location = (40, 70), hm_available_beds = 20, hm_icu_available = 0,
          hm_priority_score = 1 / 2, hm_requests = []\<rparr>]
        Map.empty) = [''hospital_c'']
   \<and> snd (assign_loop Map.empty
          (take 10 (sorted_patients
            [\<lparr>p_id = ''patient_030'', p_severity = ''high'', p_location = (40, 70),
              p_status = ''waiting'', p_assigned_hospital = None\<rparr>]))
          (build_hospital_capacity
            [\<lparr>hm_agent_id = ''hospital_c'', hm_name = ''Emergency Care Unit'',
              hm_location = (40, 70), hm_available_beds = 20, hm_icu_available = 0,
              hm_priority_score = 1 / 2, hm_requests = []\<rparr>]))
     = [(''hospital_c'',
         \<lparr>ce_beds = 19, ce_icu = 0, ce_location = (40, 70), ce_priority_score = 1 / 2,
          ce_name = ''Emergency Care Unit''\<rparr>)]
   \<and> severity_to_esi ''high'' = 2
   \<and> \<not> can_accept_patient
         (HospitalAgent_init ''hospital_c'' ''Emergency Care Unit'' (40, 70) 50 20 4 0 4000 6 3
            None)
         (severity_to_esi ''high'')"
  by (simp add: assign_patients_to_hospitals_def sorted_patients_def build_hospital_capacity_def
      capacity_of_message_def find_best_hospital_def has_capacity_def score_candidate_def
      consume_capacity_def make_assignment_def severity_to_esi_def can_accept_patient_def
      HospitalAgent_init_def Let_def)

subsection \<open>Patient matching never overcommits a hospital\<close>

lemma max_by_mem: "max_by key best xs \<in> set (best # xs)"
  by (induction xs arbitrary: best) (auto split: if_splits)

lemma cd_id_score_candidate [simp]: "cd_id (score_candidate p m kv) = fst kv"
  by (simp add: score_candidate_def Let_def)

lemma find_best_hospital_Some:
  assumes "find_best_hospital p hc m = Some best"
  shows "\<exists>e. (cd_id best, e) \<in> set hc \<and> has_capacity (p_severity p) e"
proof -
  let ?cs = "map (score_candidate p m)
               (filter (\<lambda>kv. has_capacity (p_severity p) (snd kv)) hc)"
  from assms obtain c cs where cs: "?cs = c # cs" and b: "best = max_by cd_score c cs"
    by (auto simp: find_best_hospital_def split: list.splits)
  have "best \<in> set ?cs" using max_by_mem[of cd_score c cs] b cs by simp
  then obtain kv where "kv \<in> set hc" "has_capacity (p_severity p) (snd kv)"
      "best = score_candidate p m kv"
    by auto
  then show ?thesis by (intro exI[of _ "snd kv"]) simp
qed

lemma map_of_consume_capacity:
  "map_of (consume_capacity sev h hc) k =
     (if k = h
      then map_option (\<lambda>e. if sev = ''critical'' then e\<lparr>ce_icu := ce_icu e - 1\<rparr>
                            else e\<lparr>ce_beds := ce_beds e - 1\<rparr>) (map_of hc k)
      else map_of hc k)"
  by (auto simp: consume_capacity_def map_of_map_entry split: option.splits)

lemma distinct_consume_capacity:
  "distinct (map fst hc) \<Longrightarrow> distinct (map fst (consume_capacity sev h hc))"
  by (simp add: consume_capacity_def distinct_map_entry)

text \<open>
  The loop invariant: from any tentative map, the assignments the loop still makes to a
  hospital fit into what the map holds for it, per counter.
\<close>

lemma assign_loop_load:
  assumes "distinct (map fst hc)" "map_of hc h = Some e"
  shows "int (icu_load h (fst (assign_loop m ps hc))) \<le> max 0 (ce_icu e)
       \<and> int (bed_load h (fst (assign_loop m ps hc))) \<le> max 0 (ce_beds e)"
  using assms
proof (induction ps arbitrary: hc e)
  case Nil
  then show ?case by (simp add: icu_load_def bed_load_def)
next
  case (Cons p ps)
  show ?case
  proof (cases "find_best_hospital p hc m")
    case None
    then show ?thesis using Cons by simp
  next
    case (Some best)
    let ?hc' = "consume_capacity (p_severity p) (cd_id best) hc"
    from find_best_hospital_Some[OF Some] obtain e0 where
      e0: "(cd_id best, e0) \<in> set hc" "has_capacity (p_severity p) e0" by blast
    have m0: "map_of hc (cd_id best) = Some e0" using e0 Cons.prems(1) by simp
    have d': "distinct (map fst ?hc')"
      using Cons.prems(1) by (rule distinct_consume_capacity)
    show ?thesis
    proof (cases "cd_id best = h")
      case False
      then have "map_of ?hc' h = Some e"
        using Cons.prems(2) by (simp add: map_of_consume_capacity)
      from Cons.IH[OF d' this] show ?thesis using Some False
        by (simp add: Let_def icu_load_def bed_load_def make_assignment_def)
    next
      case True
      then have ee: "e0 = e" using m0 Cons.prems(2) by simp
      show ?thesis
      proof (cases "p_severity p = ''critical''")
        case c: True
        then have "map_of ?hc' h = Some (e\<lparr>ce_icu := ce_icu e - 1\<rparr>)"
          using Cons.prems(2) True by (simp add: map_of_consume_capacity)
        from Cons.IH[OF d' this] show ?thesis using Some True c e0(2) ee
          by (simp add: Let_def icu_load_def bed_load_def make_assignment_def
                has_capacity_def)
      next
        case c: False
        then have "map_of ?hc' h = Some (e\<lparr>ce_beds := ce_beds e - 1\<rparr>)"
          using Cons.prems(2) True by (simp add: map_of_consume_capacity)
        from Cons.IH[OF d' this] show ?thesis using Some True c e0(2) ee
          by (simp add: Let_def icu_load_def bed_load_def make_assignment_def
                has_capacity_def)
      qed
    qed
  qed
qed

lemma distinct_build_hospital_capacity: "distinct (map fst (build_hospital_capacity hs))"
  unfolding build_hospital_capacity_def
  by (induction hs rule: rev_induct) (simp_all add: distinct_update)

lemma map_of_build_hospital_capacity:
  "distinct (map hm_agent_id hs) \<Longrightarrow> h \<in> set hs \<Longrightarrow>
   map_of (build_hospital_capacity hs) (hm_agent_id h) = Some (capacity_of_message h)"
  unfolding build_hospital_capacity_def
proof (induction hs rule: rev_induct)
  case Nil
  then show ?case by simp
next
  case (snoc x xs)
  show ?case
  proof (cases "h = x")
    case True
    then show ?thesis by (simp add: update_conv')
  next
    case False
    then have hx: "h \<in> set xs" using snoc.prems(2) by simp
    have "hm_agent_id x \<notin> set (map hm_agent_id xs)" using snoc.prems(1) by simp
    moreover have "hm_agent_id h \<in> set (map hm_agent_id xs)" using hx by simp
    ultimately have "hm_agent_id h \<noteq> hm_agent_id x" by metis
    then show ?thesis using snoc.IH hx snoc.prems(1) by (simp add: update_conv')
  qed
qed

lemma rr_patient_assignments_run_negotiation:
  "rr_patient_assignments (fst (run_negotiation eng hs ams sm mult ps)) =
   assign_patients_to_hospitals ps hs mult"
  by (simp add: run_negotiation_def Let_def)

text \<open>
  Claim C2. Within one \<^verbatim>\<open>run_negotiation\<close> call, for every hospital of the round
  (messages of distinct agents, with the non-negative counts a ledger holds), the
  number of assignments that consume its ICU counter does not exceed its
  \<^verbatim>\<open>icu_available\<close> at the start of the round, and the number that consume its
  general-bed counter does not exceed its \<^verbatim>\<open>available_beds\<close> at the start of the round.
\<close>

theorem run_negotiation_no_overcommit:
  assumes "distinct (map hm_agent_id hospital_messages)"
    and "h \<in> set hospital_messages"
    and "0 \<le> hm_icu_available h"
    and "0 \<le> hm_available_beds h"
  shows "int (icu_load (hm_agent_id h)
            (rr_patient_assignments
               (fst (run_negotiation eng hospital_messages ambulance_messages supply_msg
                       multipliers waiting_patients)))) \<le> hm_icu_available h
       \<and> int (bed_load (hm_agent_id h)
            (rr_patient_assignments
               (fst (run_negotiation eng hospital_messages ambulance_messages supply_msg
                       multipliers waiting_patients)))) \<le> hm_available_beds h"
proof -
  have m: "map_of (build_hospital_capacity hospital_messages) (hm_agent_id h)
             = Some (capacity_of_message h)"
    using assms(1,2) by (rule map_of_build_hospital_capacity)
  from assign_loop_load[OF distinct_build_hospital_capacity m,
      of multipliers "take 10 (sorted_patients waiting_patients)"]
  show ?thesis
    using assms(3,4)
    by (simp add: rr_patient_assignments_run_negotiation assign_patients_to_hospitals_def
          capacity_of_message_def)
qed

theorem run_negotiation_no_overcommit_witness:
  "int (icu_load ''hospital_a''
      (rr_patient_assignments
        (fst (run_negotiation \<lparr>ne_current_round = 0, ne_negotiation_rounds = []\<rparr>
          [\<lparr>hm_agent_id = ''hospital_a'', hm_name = ''City General Hospital'',
            hm_location = (25, 30), hm_available_beds = 10, hm_icu_available = 1,
            hm_priority_score = 1 / 2, hm_requests = []\<rparr>]
          [] \<lparr>sm_inventory = Map.empty, sm_vehicles_available = 4\<rparr> Map.empty
          [\<lparr>p_id = ''patient_000'', p_severity = ''critical'', p_location = (25, 30),
            p_status = ''waiting'', p_assigned_hospital = None\<rparr>,
           \<lparr>p_id = ''patient_001'', p_severity = ''critical'', p_location = (25, 30),
            p_status = ''waiting'', p_assigned_hospital = None\<rparr>])))) \<le> 1"
  using run_negotiation_no_overcommit
    [of "[\<lparr>hm_agent_id = ''hospital_a'', hm_name = ''City General Hospital'',
            hm_location = (25, 30), hm_available_beds = 10, hm_icu_available = 1,
            hm_priority_score = 1 / 2, hm_requests = []\<rparr>]"
        "\<lparr>hm_agent_id = ''hospital_a'', hm_name = ''City General Hospital'',
            hm_location = (25, 30), hm_available_beds = 10, hm_icu_available = 1,
            hm_priority_score = 1 / 2, hm_requests = []\<rparr>"
        "\<lparr>ne_current_round = 0, ne_negotiation_rounds = []\<rparr>"
        "[]" "\<lparr>sm_inventory = Map.empty, sm_vehicles_available = 4\<rparr>" Map.empty
        "[\<lparr>p_id = ''patient_000'', p_severity = ''critical'', p_location = (25, 30),
            p_status = ''waiting'', p_assigned_hospital = None\<rparr>,
           \<lparr>p_id = ''patient_001'', p_severity = ''critical'', p_location = (25, 30),
            p_status = ''waiting'', p_assigned_hospital = None\<rparr>]"]
  by simp

subsection \<open>The constraint checker's running counters\<close>

lemma icu_proposals_simps:
  "icu_proposals h [] = []"
  "icu_proposals h (a # as) =
     (if al_assigned_hospital a = h \<and> al_patient_severity a = ''critical''
      then a # icu_proposals h as else icu_proposals h as)"
  by (simp_all add: icu_proposals_def)

lemma bed_proposals_simps:
  "bed_proposals h [] = []"
  "bed_proposals h (a # as) =
     (if al_assigned_hospital a = h \<and> al_patient_severity a \<noteq> ''critical''
      then a # bed_proposals h as else bed_proposals h as)"
  by (simp_all add: bed_proposals_def)

lemma dict_get_upd: "dict_get (m(k \<mapsto> v)) k' d = (if k' = k then v else dict_get m k' d)"
  by (simp add: dict_get_def)

lemma filter_loop_icu_accepted:
  "int (length (icu_proposals h (fst (filter_loop ps rb ri)))) =
     min (int (length (icu_proposals h ps))) (max 0 (dict_get ri h 0))"
proof (induction ps arbitrary: rb ri)
  case Nil
  then show ?case by (simp add: icu_proposals_simps)
next
  case (Cons a as)
  show ?case
    by (auto simp: Let_def icu_proposals_simps Cons.IH dict_get_def)
qed

lemma filter_loop_bed_accepted:
  "int (length (bed_proposals h (fst (filter_loop ps rb ri)))) =
     min (int (length (bed_proposals h ps))) (max 0 (dict_get rb h 0))"
proof (induction ps arbitrary: rb ri)
  case Nil
  then show ?case by (simp add: bed_proposals_simps)
next
  case (Cons a as)
  show ?case
    by (auto simp: Let_def bed_proposals_simps Cons.IH dict_get_def)
qed

lemma filter_loop_icu_partition:
  "length (icu_proposals h (fst (filter_loop ps rb ri)))
   + length (icu_proposals h (snd (filter_loop ps rb ri))) = length (icu_proposals h ps)"
  by (induction ps arbitrary: rb ri) (auto simp: Let_def icu_proposals_def)

lemma filter_loop_bed_partition:
  "length (bed_proposals h (fst (filter_loop ps rb ri)))
   + length (bed_proposals h (snd (filter_loop ps rb ri))) = length (bed_proposals h ps)"
  by (induction ps arbitrary: rb ri) (auto simp: Let_def bed_proposals_def)

lemma filter_loop_reason:
  "r \<in> set (snd (filter_loop ps rb ri)) \<Longrightarrow> al_rejection_reason r \<noteq> None"
  by (induction ps arbitrary: rb ri) (auto simp: Let_def split: if_splits)

lemma remaining_icu_of_distinct:
  "distinct (map fst hs) \<Longrightarrow> (h, st) \<in> set hs \<Longrightarrow>
   dict_get (remaining_icu_of hs) h 0 = hs_icu_available st"
  unfolding remaining_icu_of_def
proof (induction hs rule: rev_induct)
  case Nil
  then show ?case by simp
next
  case (snoc x xs)
  show ?case
  proof (cases "(h, st) = x")
    case True
    then show ?thesis by (auto simp: dict_get_def)
  next
    case False
    then have hx: "(h, st) \<in> set xs" using snoc.prems(2) by simp
    have "fst x \<notin> set (map fst xs)" using snoc.prems(1) by simp
    moreover have "h \<in> set (map fst xs)" using hx by force
    ultimately have "h \<noteq> fst x" by metis
    then show ?thesis using snoc.IH hx snoc.prems(1) by (simp add: dict_get_def)
  qed
qed

lemma remaining_beds_of_distinct:
  "distinct (map fst hs) \<Longrightarrow> (h, st) \<in> set hs \<Longrightarrow>
   dict_get (remaining_beds_of hs) h 0 = hs_available_beds st"
  unfolding remaining_beds_of_def
proof (induction hs rule: rev_induct)
  case Nil
  then show ?case by simp
next
  case (snoc x xs)
  show ?case
  proof (cases "(h, st) = x")
    case True
    then show ?thesis by (auto simp: dict_get_def)
  next
    case False
    then have hx: "(h, st) \<in> set xs" using snoc.prems(2) by simp
    have "fst x \<notin> set (map fst xs)" using snoc.prems(1) by simp
    moreover have "h \<in> set (map fst xs)" using hx by force
    ultimately have "h \<noteq> fst x" by metis
    then show ?thesis using snoc.IH hx snoc.prems(1) by (simp add: dict_get_def)
  qed
qed

text \<open>
  Claim C3. For every list of proposals and every ledger, \<^verbatim>\<open>filter_valid_allocations\<close>
  checks each proposal against a running counter per target hospital, decremented on
  each acceptance: of the proposals that target a hospital with one capacity class, as
  many are accepted as the class has slots left (and no more than there are), every
  other one is in the rejected list, and every rejected proposal carries a reason. So a
  hospital with exactly one slot of the required class accepts at most one of two
  proposals that target it.
\<close>

theorem filter_valid_allocations_running_counter:
  assumes "distinct (map fst hospitals)" and "(h, st) \<in> set hospitals"
  shows "int (length (icu_proposals h (fst (filter_valid_allocations proposed hospitals)))) =
           min (int (length (icu_proposals h proposed))) (max 0 (hs_icu_available st))
       \<and> int (length (bed_proposals h (fst (filter_valid_allocations proposed hospitals)))) =
           min (int (length (bed_proposals h proposed))) (max 0 (hs_available_beds st))
       \<and> length (icu_proposals h (fst (filter_valid_allocations proposed hospitals)))
           + length (icu_proposals h (snd (filter_valid_allocations proposed hospitals)))
           = length (icu_proposals h proposed)
       \<and> length (bed_proposals h (fst (filter_valid_allocations proposed hospitals)))
           + length (bed_proposals h (snd (filter_valid_allocations proposed hospitals)))
           = length (bed_proposals h proposed)
       \<and> (\<forall>r \<in> set (snd (filter_valid_allocations proposed hospitals)).
             al_rejection_reason r \<noteq> None)
       \<and> (hs_icu_available st = 1 \<longrightarrow>
             length (icu_proposals h (fst (filter_valid_allocations proposed hospitals))) \<le> 1)
       \<and> (hs_available_beds st = 1 \<longrightarrow>
             length (bed_proposals h (fst (filter_valid_allocations proposed hospitals))) \<le> 1)"
proof -
  let ?R = "filter_valid_allocations proposed hospitals"
  have icu: "int (length (icu_proposals h (fst ?R))) =
      min (int (length (icu_proposals h proposed))) (max 0 (hs_icu_available st))"
    unfolding filter_valid_allocations_def
    by (simp only: filter_loop_icu_accepted remaining_icu_of_distinct[OF assms])
  have bed: "int (length (bed_proposals h (fst ?R))) =
      min (int (length (bed_proposals h proposed))) (max 0 (hs_available_beds st))"
    unfolding filter_valid_allocations_def
    by (simp only: filter_loop_bed_accepted remaining_beds_of_distinct[OF assms])
  have p1: "length (icu_proposals h (fst ?R)) + length (icu_proposals h (snd ?R))
      = length (icu_proposals h proposed)"
    unfolding filter_valid_allocations_def by (rule filter_loop_icu_partition)
  have p2: "length (bed_proposals h (fst ?R)) + length (bed_proposals h (snd ?R))
      = length (bed_proposals h proposed)"
    unfolding filter_valid_allocations_def by (rule filter_loop_bed_partition)
  have rs: "\<forall>r \<in> set (snd ?R). al_rejection_reason r \<noteq> None"
    unfolding filter_valid_allocations_def using filter_loop_reason by blast
  have one_icu: "hs_icu_available st = 1 \<longrightarrow> length (icu_proposals h (fst ?R)) \<le> 1"
    using icu by auto
  have one_bed: "hs_available_beds st = 1 \<longrightarrow> length (bed_proposals h (fst ?R)) \<le> 1"
    using bed by auto
  from icu bed p1 p2 rs one_icu one_bed show ?thesis by blast
qed

theorem filter_valid_allocations_running_counter_witness:
  "fst (filter_valid_allocations
      [\<lparr>al_patient_id = ''patient_000'', al_patient_severity = ''critical'',
        al_assigned_hospital = ''hospital_a'', al_rejection_reason = None\<rparr>,
       \<lparr>al_patient_id = ''patient_001'', al_patient_severity = ''critical'',
        al_assigned_hospital = ''hospital_a'', al_rejection_reason = None\<rparr>]
      [(''hospital_a'',
        \<lparr>hs_total_beds = 100, hs_available_beds = 10, hs_bed_utilization = 90,
         hs_icu_beds = 10, hs_icu_available = 1, hs_oxygen_units = 3000,
         hs_is_overloaded = True, hs_is_critical = True, hs_requires_diversion = False\<rparr>)])
   = [\<lparr>al_patient_id = ''patient_000'', al_patient_severity = ''critical'',
        al_assigned_hospital = ''hospital_a'', al_rejection_reason = None\<rparr>]
   \<and> snd (filter_valid_allocations
      [\<lparr>al_patient_id = ''patient_000'', al_patient_severity = ''critical'',
        al_assigned_hospital = ''hospital_a'', al_rejection_reason = None\<rparr>,
       \<lparr>al_patient_id = ''patient_001'', al_patient_severity = ''critical'',
        al_assigned_hospital = ''hospital_a'', al_rejection_reason = None\<rparr>]
      [(''hospital_a'',
        \<lparr>hs_total_beds = 100, hs_available_beds = 10, hs_bed_utilization = 90,
         hs_icu_beds = 10, hs_icu_available = 1, hs_oxygen_units = 3000,
         hs_is_overloaded = True, hs_is_critical = True, hs_requires_diversion = False\<rparr>)])
   = [\<lparr>al_patient_id = ''patient_001'', al_patient_severity = ''critical'',
        al_assigned_hospital = ''hospital_a'',
        al_rejection_reason = Some ''No ICU capacity''\<rparr>]
   \<and> length (icu_proposals ''hospital_a'' (fst (filter_valid_allocations
      [\<lparr>al_patient_id = ''patient_000'', al_patient_severity = ''critical'',
        al_assigned_hospital = ''hospital_a'', al_rejection_reason = None\<rparr>,
       \<lparr>al_patient_id = ''patient_001'', al_patient_severity = ''critical'',
        al_assigned_hospital = ''hospital_a'', al_rejection_reason = None\<rparr>]
      [(''hospital_a'',
        \<lparr>hs_total_beds = 100, hs_available_beds = 10, hs_bed_utilization = 90,
         hs_icu_beds = 10, hs_icu_available = 1, hs_oxygen_units = 3000,
         hs_is_overloaded = True, hs_is_critical = True, hs_requires_diversion = False\<rparr>)])))
     \<le> 1"
  using filter_valid_allocations_running_counter
    [of "[(''hospital_a'',
        \<lparr>hs_total_beds = 100, hs_available_beds = 10, hs_bed_utilization = 90,
         hs_icu_beds = 10, hs_icu_available = 1, hs_oxygen_units = 3000,
         hs_is_overloaded = True, hs_is_critical = True, hs_requires_diversion = False\<rparr>)]"
        "''hospital_a''"
        "\<lparr>hs_total_beds = 100, hs_available_beds = 10, hs_bed_utilization = 90,
         hs_icu_beds = 10, hs_icu_available = 1, hs_oxygen_units = 3000,
         hs_is_overloaded = True, hs_is_critical = True, hs_requires_diversion = False\<rparr>"
        "[\<lparr>al_patient_id = ''patient_000'', al_patient_severity = ''critical'',
        al_assigned_hospital = ''hospital_a'', al_rejection_reason = None\<rparr>,
       \<lparr>al_patient_id = ''patient_001'', al_patient_severity = ''critical'',
        al_assigned_hospital = ''hospital_a'', al_rejection_reason = None\<rparr>]"]
  by (simp add: filter_valid_allocations_def remaining_beds_of_def remaining_icu_of_def
        dict_get_def icu_proposals_def bed_proposals_def Let_def)

subsection \<open>Failure alerts and their deduplication\<close>

text \<open>
  While a type is in the active list of the handler it is not alerted again: over any
  run of ticks every type is alerted at most once, and a condition that persists from
  an inactive start is alerted exactly once, on its first tick.
\<close>

lemma alerts_of_type_simps:
  "alerts_of_type t [] = []"
  "alerts_of_type t (r # rs) =
     (if f_type (fr_failure r) = t then r # alerts_of_type t rs else alerts_of_type t rs)"
  "alerts_of_type t (xs @ ys) = alerts_of_type t xs @ alerts_of_type t ys"
  by (simp_all add: alerts_of_type_def)

lemma already_active_handle_failure:
  "already_active (snd (handle_failure fh fl)) t \<longleftrightarrow> already_active fh t \<or> f_type fl = t"
  by (auto simp: already_active_def handle_failure_def list_ex_iff)

lemma fr_failure_handle_failure [simp]: "fr_failure (fst (handle_failure fh fl)) = fl"
  by (simp add: handle_failure_def)

lemma handle_all_active:
  "already_active fh t \<Longrightarrow>
   alerts_of_type t (fst (handle_all fh fls)) = [] \<and> already_active (snd (handle_all fh fls)) t"
proof (induction fls arbitrary: fh)
  case Nil
  then show ?case by (simp add: alerts_of_type_simps)
next
  case (Cons fl fls)
  show ?case
  proof (cases "already_active fh (f_type fl)")
    case True
    then show ?thesis using Cons by simp
  next
    case False
    then have ne: "f_type fl \<noteq> t" using Cons.prems by auto
    have "already_active (snd (handle_failure fh fl)) t"
      using Cons.prems by (simp add: already_active_handle_failure)
    from Cons.IH[OF this] show ?thesis using False ne
      by (simp add: Let_def alerts_of_type_simps)
  qed
qed

lemma handle_all_inactive:
  "\<not> already_active fh t \<Longrightarrow>
   length (alerts_of_type t (fst (handle_all fh fls))) = (if t \<in> f_type ` set fls then 1 else 0)
   \<and> (already_active (snd (handle_all fh fls)) t \<longleftrightarrow> t \<in> f_type ` set fls)"
proof (induction fls arbitrary: fh)
  case Nil
  then show ?case by (simp add: alerts_of_type_simps)
next
  case (Cons fl fls)
  show ?case
  proof (cases "already_active fh (f_type fl)")
    case True
    then have ne: "f_type fl \<noteq> t" using Cons.prems by auto
    from Cons.IH[OF Cons.prems] show ?thesis using True ne by auto
  next
    case False
    show ?thesis
    proof (cases "f_type fl = t")
      case eq: True
      have "already_active (snd (handle_failure fh fl)) t"
        using eq by (simp add: already_active_handle_failure)
      from handle_all_active[OF this, of fls] show ?thesis using False eq
        by (simp add: Let_def alerts_of_type_simps)
    next
      case ne: False
      have "\<not> already_active (snd (handle_failure fh fl)) t"
        using ne Cons.prems by (simp add: already_active_handle_failure)
      from Cons.IH[OF this] show ?thesis using False ne
        by (auto simp: Let_def alerts_of_type_simps)
    qed
  qed
qed

lemma check_ticks_active:
  "already_active fh t \<Longrightarrow>
   alerts_of_type t (concat (fst (check_ticks fh ls))) = []
   \<and> already_active (snd (check_ticks fh ls)) t"
proof (induction ls arbitrary: fh)
  case Nil
  then show ?case by (simp add: alerts_of_type_simps)
next
  case (Cons l ls)
  let ?r = "check_and_handle_failures fh (fst l) (fst (snd l)) (snd (snd l))"
  have a: "alerts_of_type t (fst ?r) = []" "already_active (snd ?r) t"
    using handle_all_active[OF Cons.prems] by (simp_all add: check_and_handle_failures_def)
  from Cons.IH[OF a(2)] a(1) show ?case
    by (simp add: Let_def alerts_of_type_simps)
qed

lemma check_ticks_at_most_once:
  "length (alerts_of_type t (concat (fst (check_ticks fh ls)))) \<le> 1"
proof (induction ls arbitrary: fh)
  case Nil
  then show ?case by (simp add: alerts_of_type_simps)
next
  case (Cons l ls)
  let ?r = "check_and_handle_failures fh (fst l) (fst (snd l)) (snd (snd l))"
  show ?case
  proof (cases "already_active fh t")
    case True
    from check_ticks_active[OF True, of "l # ls"] show ?thesis by simp
  next
    case False
    let ?d = "detect_failures (fst l) (fst (snd l)) (snd (snd l))"
    from handle_all_inactive[OF False, of ?d]
    have h: "length (alerts_of_type t (fst ?r)) = (if t \<in> f_type ` set ?d then 1 else 0)"
      "already_active (snd ?r) t \<longleftrightarrow> t \<in> f_type ` set ?d"
      by (simp_all add: check_and_handle_failures_def)
    show ?thesis
    proof (cases "t \<in> f_type ` set ?d")
      case True
      then have "already_active (snd ?r) t" using h(2) by simp
      from check_ticks_active[OF this, of ls] h(1) True show ?thesis
        by (simp add: Let_def alerts_of_type_simps)
    next
      case nd: False
      then have "alerts_of_type t (fst ?r) = []" using h(1) by simp
      with Cons.IH[of "snd ?r"] show ?thesis
        by (simp add: Let_def alerts_of_type_simps)
    qed
  qed
qed

lemma detect_no_ambulances:
  "NO_AMBULANCES \<in> f_type ` set (detect_failures hs ams su)
   \<longleftrightarrow> fuelled_available_ambulances ams = []"
  by (auto simp: detect_failures_def)

lemma check_ticks_no_ambulances_once:
  assumes "ls \<noteq> []" "\<not> already_active fh NO_AMBULANCES"
    "\<forall>l \<in> set ls. fuelled_available_ambulances (fst (snd l)) = []"
  shows "length (alerts_of_type NO_AMBULANCES (concat (fst (check_ticks fh ls)))) = 1
     \<and> length (alerts_of_type NO_AMBULANCES (hd (fst (check_ticks fh ls)))) = 1"
proof -
  from assms(1) obtain l ls' where ls: "ls = l # ls'" by (cases ls) auto
  let ?r = "check_and_handle_failures fh (fst l) (fst (snd l)) (snd (snd l))"
  let ?d = "detect_failures (fst l) (fst (snd l)) (snd (snd l))"
  have inD: "NO_AMBULANCES \<in> f_type ` set ?d"
    using assms(3) ls by (simp add: detect_no_ambulances)
  from handle_all_inactive[OF assms(2), of ?d] inD
  have h: "length (alerts_of_type NO_AMBULANCES (fst ?r)) = 1" "already_active (snd ?r) NO_AMBULANCES"
    by (simp_all add: check_and_handle_failures_def)
  from check_ticks_active[OF h(2), of ls'] h(1) show ?thesis
    by (simp add: ls Let_def alerts_of_type_simps)
qed

text \<open>
  Claim C7 says that each activation of a failure condition gets exactly one alert. The
  handler does suppress a second alert while the type is in its active list (the lemmas
  above), but nothing ever takes a type out of that list: \<^verbatim>\<open>resolve_failure\<close> has no
  caller. Four ticks, the only ambulance unavailable on the first, available on the
  second, and unavailable again on the third and the fourth: the first activation is
  alerted, the second activation, on ticks three and four, gets no alert at all.
\<close>

theorem second_activation_is_silent:
  "fst (check_ticks FailureHandler_init
     [([(''hospital_b'',
         \<lparr>hs_total_beds = 80, hs_available_beds = 45, hs_bed_utilization = 43.8,
          hs_icu_beds = 8, hs_icu_available = 6, hs_oxygen_units = 8000,
          hs_is_overloaded = False, hs_is_critical = False, hs_requires_diversion = False\<rparr>)],
       [(''AMB-1'', \<lparr>as_capacity = 2, as_current_load = 0, as_fuel = 90,
                     as_status = ''en_route_pickup'', as_available = False\<rparr>)],
       \<lparr>ss_inventory = [''oxygen'' \<mapsto> 200, ''medicine'' \<mapsto> 300], ss_vehicles_available = 4\<rparr>),
      ([(''hospital_b'',
         \<lparr>hs_total_beds = 80, hs_available_beds = 45, hs_bed_utilization = 43.8,
          hs_icu_beds = 8, hs_icu_available = 6, hs_oxygen_units = 8000,
          hs_is_overloaded = False, hs_is_critical = False, hs_requires_diversion = False\<rparr>)],
       [(''AMB-1'', \<lparr>as_capacity = 2, as_current_load = 0, as_fuel = 88,
                     as_status = ''idle'', as_available = True\<rparr>)],
       \<lparr>ss_inventory = [''oxygen'' \<mapsto> 200, ''medicine'' \<mapsto> 300], ss_vehicles_available = 4\<rparr>),
      ([(''hospital_b'',
         \<lparr>hs_total_beds = 80, hs_available_beds = 45, hs_bed_utilization = 43.8,
          hs_icu_beds = 8, hs_icu_available = 6, hs_oxygen_units = 8000,
          hs_is_overloaded = False, hs_is_critical = False, hs_requires_diversion = False\<rparr>)],
       [(''AMB-1'', \<lparr>as_capacity = 2, as_current_load = 0, as_fuel = 88,
                     as_status = ''en_route_pickup'', as_available = False\<rparr>)],
       \<lparr>ss_inventory = [''oxygen'' \<mapsto> 200, ''medicine'' \<mapsto> 300], ss_vehicles_available = 4\<rparr>),
      ([(''hospital_b'',
         \<lparr>hs_total_beds = 80, hs_available_beds = 45, hs_bed_utilization = 43.8,
          hs_icu_beds = 8, hs_icu_available = 6, hs_oxygen_units = 8000,
          hs_is_overloaded = False, hs_is_critical = False, hs_requires_diversion = False\<rparr>)],
       [(''AMB-1'', \<lparr>as_capacity = 2, as_current_load = 0, as_fuel = 86,
                     as_status = ''en_route_pickup'', as_available = False\<rparr>)],
       \<lparr>ss_inventory = [''oxygen'' \<mapsto> 200, ''medicine'' \<mapsto> 300], ss_vehicles_available = 4\<rparr>)])
   = [[\<lparr>fr_failure = \<lparr>f_type = NO_AMBULANCES, f_severity = ''high'', f_affected = None\<rparr>,
        fr_protocol = ''Transport Emergency Protocol'',
        fr_actions_taken =
          [''Activate reserve vehicles'', ''Request military/police transport'',
           ''Establish triage collection points'', ''Priority-based patient staging''],
        fr_status = ''activated''\<rparr>],
      [], [], []]"
  by (simp add: check_and_handle_failures_def detect_failures_def no_beds_anywhere_def
      hospitals_without_oxygen_def fuelled_available_ambulances_def depleted_supplies_def
      dict_get_def already_active_def handle_failure_def FailureHandler_init_def Let_def)

subsection \<open>The hospital ledger invariant\<close>

lemma accept_patient_invariant:
  "hospital_invariant h \<Longrightarrow> accept_patient h patient_id esi_level = Inr r
   \<Longrightarrow> hospital_invariant (snd r)"
  by (auto simp: accept_patient_def can_accept_patient_def hospital_invariant_def
      split: if_splits option.splits)

lemma hospital_update_invariant:
  "hospital_invariant h \<Longrightarrow> hospital_invariant (snd (hospital_update h tick))"
  by (auto simp: hospital_update_def hospital_invariant_def Let_def)

lemma handle_supply_allocation_invariant:
  "hospital_invariant h \<Longrightarrow> 0 \<le> sd_quantity message
   \<Longrightarrow> hospital_invariant (handle_supply_allocation h message)"
  by (auto simp: handle_supply_allocation_def hospital_invariant_def)

text \<open>
  Claim C5 as stated fails for the supply delivery: the handler adds the quantity of the
  message to the oxygen stock without looking at it, and a message of \<open>-9000\<close> takes
  a stock of 8000 to \<open>-1000\<close>.
\<close>

theorem supply_delivery_breaks_invariant:
  "hospital_invariant
     (HospitalAgent_init ''hospital_b'' ''District Medical Center'' (60, 45) 80 45 8 6 8000 8 2 None)
   \<and> h_oxygen_units (handle_supply_allocation
        (HospitalAgent_init ''hospital_b'' ''District Medical Center'' (60, 45) 80 45 8 6 8000 8 2 None)
        \<lparr>sd_supply_type = ''oxygen'', sd_quantity = - 9000\<rparr>) = - 1000
   \<and> \<not> hospital_invariant (handle_supply_allocation
        (HospitalAgent_init ''hospital_b'' ''District Medical Center'' (60, 45) 80 45 8 6 8000 8 2 None)
        \<lparr>sd_supply_type = ''oxygen'', sd_quantity = - 9000\<rparr>)"
  by (simp add: hospital_invariant_def HospitalAgent_init_def handle_supply_allocation_def)

text \<open>
  Claim C5, amended. The ledger invariant \<open>0 \<le> available_beds \<le> total_beds\<close>,
  \<open>0 \<le> icu_available \<le> icu_beds\<close>, \<open>0 \<le> oxygen\<close> of a hospital is preserved by
  \<^verbatim>\<open>accept_patient\<close> whenever it returns (an admission is guarded by the acceptance
  check), by the per-tick \<^verbatim>\<open>update\<close> for every tick, and by the receipt of a supply
  delivery whose quantity is not negative; in general a delivery preserves it exactly
  when it is not of oxygen or the stock plus the quantity is not negative.
\<close>

theorem hospital_invariant_preserved:
  assumes "hospital_invariant h"
  shows "(\<forall>patient_id esi_level r.
            accept_patient h patient_id esi_level = Inr r \<longrightarrow> hospital_invariant (snd r))
       \<and> hospital_invariant (snd (hospital_update h tick))
       \<and> (0 \<le> sd_quantity message \<longrightarrow> hospital_invariant (handle_supply_allocation h message))
       \<and> hospital_invariant (handle_supply_allocation h message)
           = (sd_supply_type message \<noteq> ''oxygen''
              \<or> 0 \<le> h_oxygen_units h + real_of_int (sd_quantity message))"
proof -
  have "hospital_invariant (handle_supply_allocation h message)
           = (sd_supply_type message \<noteq> ''oxygen''
              \<or> 0 \<le> h_oxygen_units h + real_of_int (sd_quantity message))"
    using assms by (auto simp: handle_supply_allocation_def hospital_invariant_def)
  then show ?thesis
    using assms accept_patient_invariant hospital_update_invariant
      handle_supply_allocation_invariant by blast
qed

lemma hospital_b_accepts:
  "accept_patient
      (HospitalAgent_init ''hospital_b'' ''District Medical Center'' (60, 45) 80 45 8 6 8000 8 2 None)
      ''patient_000'' 1
    = Inr (True,
        (HospitalAgent_init ''hospital_b'' ''District Medical Center'' (60, 45) 80 45 8 6 8000 8 2 None)
          \<lparr>h_icu_available := 5,
           h_patients_admitted := [\<lparr>pr_id = ''patient_000'', pr_esi_level = 1,
              pr_triage_category = ''Resuscitation'', pr_unit = ''ICU''\<rparr>]\<rparr>)"
  by (simp add: accept_patient_def can_accept_patient_def HospitalAgent_init_def
      oxygen_hours_remaining_def current_oxygen_consumption_lpm_def icu_patients_def
      oxygen_consumption_lpm_def requires_diversion_def bed_utilization_def esi_name_def Let_def)

theorem hospital_invariant_preserved_witness:
  "hospital_invariant
     (HospitalAgent_init ''hospital_b'' ''District Medical Center'' (60, 45) 80 45 8 6 8000 8 2 None)
   \<and> hospital_invariant
      ((HospitalAgent_init ''hospital_b'' ''District Medical Center'' (60, 45) 80 45 8 6 8000 8 2 None)
          \<lparr>h_icu_available := 5,
           h_patients_admitted := [\<lparr>pr_id = ''patient_000'', pr_esi_level = 1,
              pr_triage_category = ''Resuscitation'', pr_unit = ''ICU''\<rparr>]\<rparr>)
   \<and> hospital_invariant (snd (hospital_update
      (HospitalAgent_init ''hospital_b'' ''District Medical Center'' (60, 45) 80 45 8 6 8000 8 2 None) 5))
   \<and> hospital_invariant (handle_supply_allocation
      (HospitalAgent_init ''hospital_b'' ''District Medical Center'' (60, 45) 80 45 8 6 8000 8 2 None)
      \<lparr>sd_supply_type = ''oxygen'', sd_quantity = 100\<rparr>)"
proof -
  have inv: "hospital_invariant
     (HospitalAgent_init ''hospital_b'' ''District Medical Center'' (60, 45) 80 45 8 6 8000 8 2 None)"
    by (simp add: hospital_invariant_def HospitalAgent_init_def)
  from hospital_invariant_preserved[OF inv, of 5
      "\<lparr>sd_supply_type = ''oxygen'', sd_quantity = 100\<rparr>"] hospital_b_accepts inv
  show ?thesis by force
qed

subsection \<open>Supply allocation clamps each grant to what is left\<close>

lemma allocate_loop_exhausted:
  "dict_get available (hr_resource req) 0 \<le> 0 \<Longrightarrow>
   allocate_loop (req # reqs) available = allocate_loop reqs available"
  by (simp add: Let_def)

text \<open>
  In general: a tentative inventory without negative entries stays so through the loop,
  and no grant exceeds the quantity its request asked for.
\<close>

lemma allocate_loop_inventory_nonneg:
  "(\<And>k. 0 \<le> dict_get available k 0) \<Longrightarrow> 0 \<le> dict_get (snd (allocate_loop reqs available)) k 0"
proof (induction reqs arbitrary: available)
  case Nil
  then show ?case by simp
next
  case (Cons req reqs)
  let ?r = "hr_resource req"
  let ?a = "dict_get available ?r 0"
  let ?upd = "available(?r \<mapsto> ?a - min (hr_quantity req) ?a)"
  have step: "\<And>k. 0 \<le> dict_get ?upd k 0"
    using Cons.prems by (simp add: dict_get_def)
  show ?case
  proof (cases "?r \<noteq> ''ambulance_diversion'' \<and> 0 < ?a")
    case True
    then have e: "snd (allocate_loop (req # reqs) available) = snd (allocate_loop reqs ?upd)"
      by (simp add: Let_def)
    show ?thesis unfolding e by (rule Cons.IH[OF step])
  next
    case False
    then have e: "snd (allocate_loop (req # reqs) available) = snd (allocate_loop reqs available)"
      by (auto simp: Let_def)
    show ?thesis unfolding e by (rule Cons.IH[OF Cons.prems])
  qed
qed

lemma allocate_loop_grants_clamped:
  "a \<in> set (fst (allocate_loop reqs available))
   \<Longrightarrow> \<exists>req \<in> set reqs. sa_resource a = hr_resource req \<and> sa_quantity a \<le> hr_quantity req"
proof (induction reqs arbitrary: available)
  case Nil
  then show ?case by simp
next
  case (Cons req reqs)
  let ?r = "hr_resource req"
  let ?a = "dict_get available ?r 0"
  let ?upd = "available(?r \<mapsto> ?a - min (hr_quantity req) ?a)"
  show ?case
  proof (cases "?r \<noteq> ''ambulance_diversion'' \<and> 0 < ?a")
    case True
    then have e: "fst (allocate_loop (req # reqs) available) =
        \<lparr>sa_hospital_id = hr_hospital_id req, sa_hospital_name = hr_hospital_name req,
         sa_resource = ?r, sa_quantity = min (hr_quantity req) ?a,
         sa_urgency = hr_urgency req\<rparr> # fst (allocate_loop reqs ?upd)"
      by (simp add: Let_def)
    from Cons.prems[unfolded e] consider
      "a = \<lparr>sa_hospital_id = hr_hospital_id req, sa_hospital_name = hr_hospital_name req,
         sa_resource = ?r, sa_quantity = min (hr_quantity req) ?a,
         sa_urgency = hr_urgency req\<rparr>" | "a \<in> set (fst (allocate_loop reqs ?upd))"
      by auto
    then show ?thesis
    proof cases
      case 1
      then show ?thesis by simp
    next
      case 2
      from Cons.IH[OF 2] show ?thesis by auto
    qed
  next
    case False
    then have e: "fst (allocate_loop (req # reqs) available) = fst (allocate_loop reqs available)"
      by (auto simp: Let_def)
    from Cons.IH[OF Cons.prems[unfolded e]] show ?thesis by auto
  qed
qed

text \<open>The requests are processed in the order of the sort key.\<close>

lemma sort_requests_sorted:
  "sorted (map (\<lambda>r. (urgency_order (hr_urgency r), - hr_hospital_priority r)) (sort_requests reqs))
   \<and> set (sort_requests reqs) = set reqs \<and> length (sort_requests reqs) = length reqs"
  by (simp add: sort_requests_def sorted_sort_key)

text \<open>
  Claim C6. A depot inventory of 50 oxygen and hospitals asking for 40 (\<^verbatim>\<open>critical\<close>),
  30 (\<^verbatim>\<open>high\<close>) and 20 (\<^verbatim>\<open>medium\<close>) oxygen, whether their messages arrive in the reverse
  of the priority order or in it: the requests are processed in priority order, the
  request of 40 is granted 40, the request of 30 exactly 10, the tentative inventory
  ends at 0, and the request of 20, which finds the inventory exhausted, gets no
  allocation; the round returns normally. Of two requests of the same urgency the one
  of the hospital with the higher stress score is served first: 40 and 10 again when
  the request of 40 comes second in the messages.
\<close>

theorem allocate_supplies_priority_order_and_clamp:
  "allocate_supplies
     [\<lparr>hm_agent_id = id3, hm_name = n3, hm_location = l3, hm_available_beds = b3,
       hm_icu_available = i3, hm_priority_score = s3,
       hm_requests = [\<lparr>rq_resource = ''oxygen'', rq_quantity = 20, rq_urgency = ''medium''\<rparr>]\<rparr>,
      \<lparr>hm_agent_id = id2, hm_name = n2, hm_location = l2, hm_available_beds = b2,
       hm_icu_available = i2, hm_priority_score = s2,
       hm_requests = [\<lparr>rq_resource = ''oxygen'', rq_quantity = 30, rq_urgency = ''high''\<rparr>]\<rparr>,
      \<lparr>hm_agent_id = id1, hm_name = n1, hm_location = l1, hm_available_beds = b1,
       hm_icu_available = i1, hm_priority_score = s1,
       hm_requests = [\<lparr>rq_resource = ''oxygen'', rq_quantity = 40, rq_urgency = ''critical''\<rparr>]\<rparr>]
     \<lparr>sm_inventory = [''oxygen'' \<mapsto> 50], sm_vehicles_available = v\<rparr>
   = ([\<lparr>sa_hospital_id = id1, sa_hospital_name = n1, sa_resource = ''oxygen'',
        sa_quantity = 40, sa_urgency = ''critical''\<rparr>,
       \<lparr>sa_hospital_id = id2, sa_hospital_name = n2, sa_resource = ''oxygen'',
        sa_quantity = 10, sa_urgency = ''high''\<rparr>],
      [''oxygen'' \<mapsto> 0])
   \<and> allocate_supplies
     [\<lparr>hm_agent_id = id1, hm_name = n1, hm_location = l1, hm_available_beds = b1,
       hm_icu_available = i1, hm_priority_score = s1,
       hm_requests = [\<lparr>rq_resource = ''oxygen'', rq_quantity = 40, rq_urgency = ''critical''\<rparr>]\<rparr>,
      \<lparr>hm_agent_id = id2, hm_name = n2, hm_location = l2, hm_available_beds = b2,
       hm_icu_available = i2, hm_priority_score = s2,
       hm_requests = [\<lparr>rq_resource = ''oxygen'', rq_quantity = 30, rq_urgency = ''high''\<rparr>]\<rparr>,
      \<lparr>hm_agent_id = id3, hm_name = n3, hm_location = l3, hm_available_beds = b3,
       hm_icu_available = i3, hm_priority_score = s3,
       hm_requests = [\<lparr>rq_resource = ''oxygen'', rq_quantity = 20, rq_urgency = ''medium''\<rparr>]\<rparr>]
     \<lparr>sm_inventory = [''oxygen'' \<mapsto> 50], sm_vehicles_available = v\<rparr>
   = ([\<lparr>sa_hospital_id = id1, sa_hospital_name = n1, sa_resource = ''oxygen'',
        sa_quantity = 40, sa_urgency = ''critical''\<rparr>,
       \<lparr>sa_hospital_id = id2, sa_hospital_name = n2, sa_resource = ''oxygen'',
        sa_quantity = 10, sa_urgency = ''high''\<rparr>],
      [''oxygen'' \<mapsto> 0])
   \<and> allocate_supplies
     [\<lparr>hm_agent_id = id2, hm_name = n2, hm_location = l2, hm_available_beds = b2,
       hm_icu_available = i2, hm_priority_score = 3 / 10,
       hm_requests = [\<lparr>rq_resource = ''oxygen'', rq_quantity = 30, rq_urgency = ''high''\<rparr>]\<rparr>,
      \<lparr>hm_agent_id = id1, hm_name = n1, hm_location = l1, hm_available_beds = b1,
       hm_icu_available = i1, hm_priority_score = 9 / 10,
       hm_requests = [\<lparr>rq_resource = ''oxygen'', rq_quantity = 40, rq_urgency = ''high''\<rparr>]\<rparr>]
     \<lparr>sm_inventory = [''oxygen'' \<mapsto> 50], sm_vehicles_available = v\<rparr>
   = ([\<lparr>sa_hospital_id = id1, sa_hospital_name = n1, sa_resource = ''oxygen'',
        sa_quantity = 40, sa_urgency = ''high''\<rparr>,
       \<lparr>sa_hospital_id = id2, sa_hospital_name = n2, sa_resource = ''oxygen'',
        sa_quantity = 10, sa_urgency = ''high''\<rparr>],
      [''oxygen'' \<mapsto> 0])"
  by (simp add: allocate_supplies_def sort_requests_def collect_requests_def urgency_order_def
      dict_get_def Let_def)

subsection \<open>Ambulance assignment\<close>

text \<open>
  What the assignment loop does guarantee: the chosen unit is in the pool and has the
  least projected ETA of the pool (the first such unit), and no unit is assigned twice
  in a round.
\<close>

lemma nearest_ambulance_inv:
  assumes "nearest_ambulance pl hl best pool = Some (b, e)"
    and "best = None \<Longrightarrow> S = {}"
    and "\<And>b0 e0. best = Some (b0, e0) \<Longrightarrow> e0 = unit_eta pl hl b0 \<and> b0 \<in> S
            \<and> (\<forall>a \<in> S. e0 \<le> unit_eta pl hl a)"
  shows "e = unit_eta pl hl b \<and> b \<in> S \<union> set pool
     \<and> (\<forall>a \<in> S \<union> set pool. e \<le> unit_eta pl hl a)"
  using assms
proof (induction pool arbitrary: best S)
  case Nil
  then show ?case by auto
next
  case (Cons amb ambs)
  let ?eta = "unit_eta pl hl amb"
  let ?best' = "(case best of None \<Rightarrow> Some (amb, ?eta)
            | Some (best_amb, best_eta) \<Rightarrow>
                if ?eta < best_eta then Some (amb, ?eta) else Some (best_amb, best_eta))"
  have run: "nearest_ambulance pl hl ?best' ambs = Some (b, e)"
    using Cons.prems(1) unfolding unit_eta_def by (simp add: Let_def)
  have ne: "?best' = None \<Longrightarrow> insert amb S = {}"
    by (cases best) (auto split: if_splits)
  have inv: "\<And>b0 e0. ?best' = Some (b0, e0) \<Longrightarrow> e0 = unit_eta pl hl b0 \<and> b0 \<in> insert amb S
            \<and> (\<forall>a \<in> insert amb S. e0 \<le> unit_eta pl hl a)"
  proof -
    fix b0 e0 assume b: "?best' = Some (b0, e0)"
    show "e0 = unit_eta pl hl b0 \<and> b0 \<in> insert amb S
            \<and> (\<forall>a \<in> insert amb S. e0 \<le> unit_eta pl hl a)"
    proof (cases best)
      case None
      with b Cons.prems(2) show ?thesis by auto
    next
      case (Some p)
      obtain b1 e1 where p: "p = (b1, e1)" by (cases p)
      from Cons.prems(3)[of b1 e1] Some p
      have i: "e1 = unit_eta pl hl b1" "b1 \<in> S" "\<forall>a \<in> S. e1 \<le> unit_eta pl hl a" by auto
      show ?thesis using b Some p i by (auto split: if_splits)
    qed
  qed
  from Cons.IH[OF run ne inv] show ?case by auto
qed

lemma nearest_ambulance_minimal:
  assumes "nearest_ambulance pl hl None pool = Some (b, e)"
  shows "e = unit_eta pl hl b \<and> b \<in> set pool \<and> (\<forall>a \<in> set pool. e \<le> unit_eta pl hl a)"
  using nearest_ambulance_inv[OF assms, of "{}"] by auto

lemma ambulance_loop_ids:
  "set (map aa_ambulance_id (ambulance_loop locs as pool)) \<subseteq> set (map am_agent_id pool)"
proof (induction as arbitrary: pool)
  case Nil
  then show ?case by simp
next
  case (Cons a as)
  show ?case
  proof (cases "pool = []")
    case True
    then show ?thesis by simp
  next
    case False
    show ?thesis
    proof (cases "nearest_ambulance (pa_patient_location a)
                    (dict_get locs (pa_assigned_hospital a) default_location) None pool")
      case None
      then show ?thesis using False Cons.IH[of pool] by (simp add: Let_def)
    next
      case (Some p)
      obtain b e where p: "p = (b, e)" by (cases p)
      from nearest_ambulance_minimal[OF Some[unfolded p]] have bm: "b \<in> set pool" by simp
      have "set (map am_agent_id (remove1 b pool)) \<subseteq> set (map am_agent_id pool)"
        using set_remove1_subset[of b pool] by auto
      with Cons.IH[of "remove1 b pool"] bm show ?thesis using False Some p
        by (auto simp: Let_def)
    qed
  qed
qed

lemma remove1_map_distinct:
  "distinct (map f xs) \<Longrightarrow> b \<in> set xs \<Longrightarrow>
   f b \<notin> set (map f (remove1 b xs)) \<and> distinct (map f (remove1 b xs))"
proof (induction xs)
  case Nil
  then show ?case by simp
next
  case (Cons x xs)
  show ?case
  proof (cases "x = b")
    case True
    then show ?thesis using Cons.prems by simp
  next
    case False
    then have "b \<in> set xs" using Cons.prems by simp
    moreover have "distinct (map f xs)" using Cons.prems by simp
    ultimately have ih: "f b \<notin> set (map f (remove1 b xs))" "distinct (map f (remove1 b xs))"
      using Cons.IH by simp_all
    have "f x \<notin> set (map f xs)" using Cons.prems by simp
    then have a: "f x \<notin> set (map f (remove1 b xs))"
      using set_remove1_subset[of b xs] by auto
    have "f b \<in> set (map f xs)" using \<open>b \<in> set xs\<close> by simp
    with \<open>f x \<notin> set (map f xs)\<close> have "f b \<noteq> f x" by metis
    then show ?thesis using False ih a by simp
  qed
qed

lemma ambulance_loop_distinct:
  "distinct (map am_agent_id pool) \<Longrightarrow>
   distinct (map aa_ambulance_id (ambulance_loop locs as pool))"
proof (induction as arbitrary: pool)
  case Nil
  then show ?case by simp
next
  case (Cons a as)
  show ?case
  proof (cases "pool = []")
    case True
    then show ?thesis by simp
  next
    case False
    show ?thesis
    proof (cases "nearest_ambulance (pa_patient_location a)
                    (dict_get locs (pa_assigned_hospital a) default_location) None pool")
      case None
      then show ?thesis using False Cons.IH[OF Cons.prems] by (simp add: Let_def)
    next
      case (Some p)
      obtain b e where p: "p = (b, e)" by (cases p)
      from nearest_ambulance_minimal[OF Some[unfolded p]] have bm: "b \<in> set pool" by simp
      from remove1_map_distinct[OF Cons.prems bm]
      have d: "distinct (map am_agent_id (remove1 b pool))"
        and "am_agent_id b \<notin> set (map am_agent_id (remove1 b pool))" by simp_all
      with ambulance_loop_ids[of locs as "remove1 b pool"]
      have nb: "am_agent_id b \<notin> set (map aa_ambulance_id (ambulance_loop locs as (remove1 b pool)))"
        by blast
      from Cons.IH[OF d] nb show ?thesis using False Some p by (simp add: Let_def)
    qed
  qed
qed

text \<open>
  Claim C8 says that the unit chosen for a patient-hospital pair is eligible: load below
  capacity, fuel above the critical threshold, status idle. The engine builds its pool
  from the free slots alone. Unit AMB-1 is on its way to a pickup with 5 percent fuel and
  nobody on board, unit AMB-2 is idle and fuelled at the patient's position: AMB-1 is not
  available by the agent's own \<^verbatim>\<open>is_available\<close>, AMB-2 is, and the engine assigns AMB-1.
  The messages carry no location, so both units get the ETA of the default position and
  the first of the pool wins.
\<close>

theorem engine_dispatches_unavailable_ambulance:
  "\<not> is_available
       ((AmbulanceAgent_init ''AMB-1'' (30, 35) 2 0.05 True)\<lparr>a_status := ''en_route_pickup''\<rparr>)
   \<and> is_available (AmbulanceAgent_init ''AMB-2'' (55, 40) 2 0.75 True)
   \<and> map aa_ambulance_id
       (assign_ambulances
          [\<lparr>pa_patient_id = ''patient_000'', pa_patient_severity = ''critical'',
            pa_patient_location = (55, 40), pa_assigned_hospital = ''hospital_b'',
            pa_hospital_name = ''District Medical Center'', pa_score = 1\<rparr>]
          [ambulance_generate_message
             ((AmbulanceAgent_init ''AMB-1'' (30, 35) 2 0.05 True)
                \<lparr>a_status := ''en_route_pickup''\<rparr>),
           ambulance_generate_message (AmbulanceAgent_init ''AMB-2'' (55, 40) 2 0.75 True)]
          [\<lparr>hm_agent_id = ''hospital_b'', hm_name = ''District Medical Center'',
            hm_location = (60, 45), hm_available_beds = 45, hm_icu_available = 6,
            hm_priority_score = 1 / 2, hm_requests = []\<rparr>])
     = [''AMB-1'']"
  by (simp add: is_available_def AmbulanceAgent_init_def assign_ambulances_def
      available_ambulances_def ambulance_generate_message_def hospital_locations_def
      dict_get_def Let_def)

subsection \<open>Initialization\<close>

text \<open>
  With the configuration as shipped, \<^verbatim>\<open>initialize\<close> raises \<^verbatim>\<open>KeyError\<close> at the first key
  that the supply dictionary lacks, whatever the casualties drawn.
\<close>

lemma initialize_shipped_configuration:
  "fst (initialize s HOSPITALS_CONFIG AMBULANCES_CONFIG SUPPLY_CONFIG GOVERNMENT_CONFIG casualties)
     = Inl (KeyError ''food_units'')
   \<and> \<not> sim_running (snd (initialize s HOSPITALS_CONFIG AMBULANCES_CONFIG SUPPLY_CONFIG
                             GOVERNMENT_CONFIG casualties))"
  by (simp add: initialize_def supply_of_config_def config_lookup_def SUPPLY_CONFIG_def
      reset_def Simulator_init_def Let_def)




subsection \<open>A step of a simulator that is not running\<close>

text \<open>
  Claim C10. A step of a simulator that is not running returns the error result and
  leaves the whole simulator state as it was: the tick counter, the hospitals, the
  ambulances, the depot and the patients. A simulator that was never initialized and
  one that was reset are not running.
\<close>

theorem step_not_running:
  "(\<not> sim_running s \<longrightarrow>
      step inflow s = (StepError ''Simulation not running. Call initialize() first.'', s))
   \<and> step inflow Simulator_init
       = (StepError ''Simulation not running. Call initialize() first.'', Simulator_init)
   \<and> step inflow (reset s)
       = (StepError ''Simulation not running. Call initialize() first.'', reset s)"
  by (simp add: step_def reset_def Simulator_init_def)

theorem step_not_running_witness:
  "\<not> sim_running Simulator_init
   \<and> step [] Simulator_init
       = (StepError ''Simulation not running. Call initialize() first.'', Simulator_init)"
  using step_not_running[of Simulator_init "[]"]
  by (simp add: Simulator_init_def)

text \<open>A running simulator does advance: its step leaves the tick counter one higher.\<close>

lemma step_running_advances_tick:
  "sim_running s \<Longrightarrow> sim_tick (snd (step inflow s)) = sim_tick s + 1"
  by (auto simp: step_def step_phases_def Let_def
      split: sum.splits option.splits prod.splits)

end
